theory Spec2Isabelle
  imports Complex_Main "HOL-Library.Monad_Syntax"
begin

section \<open>The form-assessment engine (class ExerciseAnalyzer)\<close>

text \<open>
  A shallow embedding of the class \<open>ExerciseAnalyzer\<close> of the exercise-analysis module
  and of the properties its specification states about it.

  Numbers. A number of the code is an IEEE-754 double (binary64): type \<open>jsnum\<close>, a finite
  value or one of the two infinities or \<open>NaN\<close>. Every arithmetic operation is the exact
  operation on the values followed by \<open>round64\<close>, the rounding to the nearest double
  (ties to even, gradual underflow, overflow to infinity), and a decimal literal of the
  source that is not a double itself (\<open>0.01\<close>, \<open>0.6\<close>) denotes \<open>round64\<close> of its value.
  A landmark coordinate is a finite number, a \<open>real\<close>: it goes into the arithmetic as
  \<open>Fin\<close> of its value. The sign of a zero is not modelled: no divisor of the class can
  be \<open>-0\<close>, and nothing else in it tells the two zeros apart.
  The language standard leaves the precision of \<open>Math.acos\<close>, \<open>Math.pow\<close> and
  \<open>Math.atan2\<close> to the implementation: the first two are taken as the nearest double of
  the exact result, and the two angles computed from \<open>Math.atan2\<close>
  (\<open>calculateBackAngle\<close>, \<open>calculateTorsoLean\<close>) are modelled by their exact values in
  degrees, as reals.

  Exceptions. The only exception the class can raise is the \<open>TypeError\<close> of reading a
  property of \<open>undefined\<close>, after an array read out of range. A method that can raise
  returns an \<open>option\<close>, and \<open>None\<close> is that exception.

  State. The instance is a record that every method takes as its first argument;
  \<open>analyzeExercise\<close>, the one method that mutates it, returns the new instance too.
\<close>

subsection \<open>Numbers\<close>

datatype jsnum = Fin real | PosInf | NegInf | NaN

text \<open>The integer nearest to a real, the even one of the two when it is half way.\<close>

definition round_half_even :: "real \<Rightarrow> int" where
  "round_half_even r =
     (let f = \<lfloor>r\<rfloor>; d = r - of_int f
      in if d < 1 / 2 then f
         else if 1 / 2 < d then f + 1
         else if even f then f else f + 1)"

text \<open>
  The exponent of the last place of the doubles around \<open>a\<close>: 52 binary places below
  the leading bit of \<open>a\<close>, and \<open>-1074\<close> for the subnormal numbers.
\<close>

definition ulp_exponent :: "real \<Rightarrow> int" where
  "ulp_exponent a = max \<lfloor>log 2 \<bar>a\<bar>\<rfloor> (- 1022) - 52"

text \<open>
  The double nearest to a real: the nearest multiple of the last place, or an infinity
  when that multiple is \<open>2 ^ 1024\<close> or more in absolute value.
\<close>

definition round64 :: "real \<Rightarrow> jsnum" where
  "round64 a =
     (if a = 0 then Fin 0
      else let e = ulp_exponent a;
               v = of_int (round_half_even (a / 2 powi e)) * 2 powi e
           in if 2 ^ 1024 \<le> \<bar>v\<bar> then (if 0 < a then PosInf else NegInf) else Fin v)"

fun jneg :: "jsnum \<Rightarrow> jsnum" where
  "jneg (Fin a) = Fin (- a)"
| "jneg PosInf = NegInf"
| "jneg NegInf = PosInf"
| "jneg NaN = NaN"

text \<open>\<open>Math.abs\<close>.\<close>

fun jabs :: "jsnum \<Rightarrow> jsnum" where
  "jabs (Fin a) = Fin \<bar>a\<bar>"
| "jabs PosInf = PosInf"
| "jabs NegInf = PosInf"
| "jabs NaN = NaN"

fun jadd :: "jsnum \<Rightarrow> jsnum \<Rightarrow> jsnum" where
  "jadd NaN _ = NaN"
| "jadd _ NaN = NaN"
| "jadd (Fin a) (Fin b) = round64 (a + b)"
| "jadd (Fin a) PosInf = PosInf"
| "jadd (Fin a) NegInf = NegInf"
| "jadd PosInf NegInf = NaN"
| "jadd PosInf _ = PosInf"
| "jadd NegInf PosInf = NaN"
| "jadd NegInf _ = NegInf"

fun jsub :: "jsnum \<Rightarrow> jsnum \<Rightarrow> jsnum" where
  "jsub NaN _ = NaN"
| "jsub _ NaN = NaN"
| "jsub (Fin a) (Fin b) = round64 (a - b)"
| "jsub (Fin a) PosInf = NegInf"
| "jsub (Fin a) NegInf = PosInf"
| "jsub PosInf PosInf = NaN"
| "jsub PosInf _ = PosInf"
| "jsub NegInf NegInf = NaN"
| "jsub NegInf _ = NegInf"

fun jmul :: "jsnum \<Rightarrow> jsnum \<Rightarrow> jsnum" where
  "jmul NaN _ = NaN"
| "jmul _ NaN = NaN"
| "jmul (Fin a) (Fin b) = round64 (a * b)"
| "jmul (Fin a) PosInf = (if a = 0 then NaN else if 0 < a then PosInf else NegInf)"
| "jmul (Fin a) NegInf = (if a = 0 then NaN else if 0 < a then NegInf else PosInf)"
| "jmul PosInf (Fin b) = (if b = 0 then NaN else if 0 < b then PosInf else NegInf)"
| "jmul NegInf (Fin b) = (if b = 0 then NaN else if 0 < b then NegInf else PosInf)"
| "jmul PosInf PosInf = PosInf"
| "jmul PosInf NegInf = NegInf"
| "jmul NegInf PosInf = NegInf"
| "jmul NegInf NegInf = PosInf"

text \<open>
  The divisor of every division of the class is a non-negative number (a product of
  square roots, a length, or a positive constant), so a zero divisor is \<open>+0\<close>.
\<close>

fun jdiv :: "jsnum \<Rightarrow> jsnum \<Rightarrow> jsnum" where
  "jdiv NaN _ = NaN"
| "jdiv _ NaN = NaN"
| "jdiv (Fin a) (Fin b) =
     (if b \<noteq> 0 then round64 (a / b)
      else if a = 0 then NaN
      else if 0 < a then PosInf else NegInf)"
| "jdiv (Fin a) PosInf = Fin 0"
| "jdiv (Fin a) NegInf = Fin 0"
| "jdiv PosInf (Fin b) = (if 0 \<le> b then PosInf else NegInf)"
| "jdiv NegInf (Fin b) = (if 0 \<le> b then NegInf else PosInf)"
| "jdiv PosInf _ = NaN"
| "jdiv NegInf _ = NaN"

text \<open>\<open>Math.sqrt\<close>.\<close>

fun jsqrt :: "jsnum \<Rightarrow> jsnum" where
  "jsqrt (Fin a) = (if a < 0 then NaN else round64 (sqrt a))"
| "jsqrt PosInf = PosInf"
| "jsqrt NegInf = NaN"
| "jsqrt NaN = NaN"

text \<open>\<open>Math.pow(a, 2)\<close>: the square, rounded.\<close>

definition Math_pow_2 :: "jsnum \<Rightarrow> jsnum" where
  "Math_pow_2 a = jmul a a"

text \<open>The comparisons \<open><\<close> and \<open>>\<close>: false as soon as an operand is \<open>NaN\<close>.\<close>

fun jlt :: "jsnum \<Rightarrow> jsnum \<Rightarrow> bool" where
  "jlt NaN _ = False"
| "jlt _ NaN = False"
| "jlt (Fin a) (Fin b) = (a < b)"
| "jlt (Fin a) PosInf = True"
| "jlt (Fin a) NegInf = False"
| "jlt PosInf _ = False"
| "jlt NegInf NegInf = False"
| "jlt NegInf _ = True"

definition jgt :: "jsnum \<Rightarrow> jsnum \<Rightarrow> bool" where
  "jgt a b = jlt b a"

text \<open>\<open>Math.min\<close> and \<open>Math.max\<close> of two numbers: \<open>NaN\<close> if either is.\<close>

definition Math_min :: "jsnum \<Rightarrow> jsnum \<Rightarrow> jsnum" where
  "Math_min a b = (if a = NaN \<or> b = NaN then NaN else if jlt b a then b else a)"

definition Math_max :: "jsnum \<Rightarrow> jsnum \<Rightarrow> jsnum" where
  "Math_max a b = (if a = NaN \<or> b = NaN then NaN else if jlt a b then b else a)"

text \<open>\<open>Math.max(...xs)\<close> and \<open>Math.min(...xs)\<close> of an array of finite numbers.\<close>

definition Math_max_spread :: "real list \<Rightarrow> jsnum" where
  "Math_max_spread xs = fold (\<lambda>v acc. Math_max acc (Fin v)) xs NegInf"

definition Math_min_spread :: "real list \<Rightarrow> jsnum" where
  "Math_min_spread xs = fold (\<lambda>v acc. Math_min acc (Fin v)) xs PosInf"

text \<open>
  \<open>Math.acos\<close>: \<open>NaN\<close> outside \<open>[-1, 1]\<close>, and inside the double nearest to the
  arccosine (the language standard asks for an approximation of it only). \<open>Math.PI\<close>.
\<close>

fun Math_acos :: "jsnum \<Rightarrow> jsnum" where
  "Math_acos (Fin a) = (if -1 \<le> a \<and> a \<le> 1 then round64 (arccos a) else NaN)"
| "Math_acos _ = NaN"

definition Math_PI :: jsnum where
  "Math_PI = round64 pi"

text \<open>\<open>Math.atan2(b, a)\<close> of two finite numbers, by the quadrant of the point \<open>(a, b)\<close>.\<close>

definition Math_atan2 :: "real \<Rightarrow> real \<Rightarrow> real" where
  "Math_atan2 b a =
     (if 0 < a then arctan (b / a)
      else if a < 0 then (if 0 \<le> b then arctan (b / a) + pi else arctan (b / a) - pi)
      else if 0 < b then pi / 2
      else if b < 0 then - (pi / 2)
      else 0)"

text \<open>
  An element of an array of numbers read by index and used as an operand: out of range
  the read gives \<open>undefined\<close>, which arithmetic turns into \<open>NaN\<close>.
\<close>

definition num_at :: "real list \<Rightarrow> nat \<Rightarrow> jsnum" where
  "num_at xs i = (if i < length xs then Fin (xs ! i) else NaN)"

subsection \<open>Scoring policy\<close>

text \<open>The three arguments are the arrays of findings; only their lengths are read.\<close>

definition calculateFormScore :: "string list \<Rightarrow> string list \<Rightarrow> string list \<Rightarrow> int" where
  "calculateFormScore criticalErrors minorIssues strengths =
     (let score0 = 100;
          score1 = score0 - int (length criticalErrors) * 25;
          score2 = score1 - int (length minorIssues) * 10;
          score3 = score2 + int (length strengths) * 5
      in max 0 (min 100 score3))"

subsection \<open>Data model\<close>

record PoseLandmark =
  x :: real
  y :: real
  z :: real
  visibility :: real

record BiomechanicalAnalysis =
  jointAngles :: "(string \<times> jsnum) list"
  symmetry :: jsnum
  stability :: jsnum
  range_rom :: jsnum
  timing :: jsnum

record FormAssessment =
  score :: int
  criticalErrors :: "string list"
  minorIssues :: "string list"
  strengths :: "string list"
  phase :: string
  biomechanics :: BiomechanicalAnalysis

record ExerciseAnalyzer =
  frameHistory :: "PoseLandmark list list"
  phaseHistory :: "string list"

definition maxHistoryFrames :: nat where
  "maxHistoryFrames = 30"

text \<open>The instance that \<open>new ExerciseAnalyzer()\<close> makes.\<close>

definition newExerciseAnalyzer :: ExerciseAnalyzer where
  "newExerciseAnalyzer = \<lparr>frameHistory = [], phaseHistory = []\<rparr>"

text \<open>
  An element of an array of objects read by index, a property of which is then read:
  out of range the read gives \<open>undefined\<close> and the property access raises.
\<close>

definition at_index :: "'a list \<Rightarrow> nat \<Rightarrow> 'a option" where
  "at_index xs i = (if i < length xs then Some (xs ! i) else None)"

text \<open>\<open>xs.slice(-n)\<close>: the last \<open>n\<close> elements, all of them when there are fewer.\<close>

definition slice_last :: "nat \<Rightarrow> 'a list \<Rightarrow> 'a list" where
  "slice_last n xs = drop (length xs - n) xs"

subsection \<open>Geometric primitives\<close>

definition calculateAngle :: "PoseLandmark \<Rightarrow> PoseLandmark \<Rightarrow> PoseLandmark \<Rightarrow> jsnum" where
  "calculateAngle p1 p2 p3 =
     (let v1x = jsub (Fin (x p1)) (Fin (x p2)); v1y = jsub (Fin (y p1)) (Fin (y p2));
          v2x = jsub (Fin (x p3)) (Fin (x p2)); v2y = jsub (Fin (y p3)) (Fin (y p2));
          dot = jadd (jmul v1x v2x) (jmul v1y v2y);
          mag1 = jsqrt (jadd (jmul v1x v1x) (jmul v1y v1y));
          mag2 = jsqrt (jadd (jmul v2x v2x) (jmul v2y v2y));
          cos = jdiv dot (jmul mag1 mag2)
      in jmul (Math_acos (Math_max (Fin (- 1)) (Math_min (Fin 1) cos)))
           (jdiv (Fin 180) Math_PI))"

definition calculateDistance :: "PoseLandmark \<Rightarrow> PoseLandmark \<Rightarrow> jsnum" where
  "calculateDistance p1 p2 =
     jsqrt (jadd (Math_pow_2 (jsub (Fin (x p1)) (Fin (x p2))))
                 (Math_pow_2 (jsub (Fin (y p1)) (Fin (y p2)))))"

text \<open>The angle at the second of three landmarks of a frame, read by index.\<close>

definition angleAt :: "PoseLandmark list \<Rightarrow> nat \<Rightarrow> nat \<Rightarrow> nat \<Rightarrow> jsnum option" where
  "angleAt landmarks i j k = do {
     p1 \<leftarrow> at_index landmarks i;
     p2 \<leftarrow> at_index landmarks j;
     p3 \<leftarrow> at_index landmarks k;
     Some (calculateAngle p1 p2 p3)
   }"

definition calculateHipAngle :: "PoseLandmark list \<Rightarrow> jsnum option" where
  "calculateHipAngle landmarks = angleAt landmarks 11 23 25"

definition calculateKneeAngle :: "PoseLandmark list \<Rightarrow> jsnum option" where
  "calculateKneeAngle landmarks = angleAt landmarks 23 25 27"

definition calculateAnkleAngle :: "PoseLandmark list \<Rightarrow> jsnum option" where
  "calculateAnkleAngle landmarks = angleAt landmarks 25 27 31"

definition calculateShoulderAngle :: "PoseLandmark list \<Rightarrow> jsnum option" where
  "calculateShoulderAngle landmarks = angleAt landmarks 13 11 23"

definition calculateElbowAngle :: "PoseLandmark list \<Rightarrow> jsnum option" where
  "calculateElbowAngle landmarks = angleAt landmarks 11 13 15"

definition calculateWristAngle :: "PoseLandmark list \<Rightarrow> jsnum option" where
  "calculateWristAngle landmarks = angleAt landmarks 13 15 19"

definition calculateSpinalAngle :: "PoseLandmark list \<Rightarrow> jsnum option" where
  "calculateSpinalAngle landmarks = angleAt landmarks 11 23 25"

subsection \<open>Measures of one frame\<close>

definition analyzeKneeAlignment :: "PoseLandmark list \<Rightarrow> jsnum option" where
  "analyzeKneeAlignment landmarks = do {
     leftKnee \<leftarrow> at_index landmarks 25;
     rightKnee \<leftarrow> at_index landmarks 26;
     leftAnkle \<leftarrow> at_index landmarks 27;
     rightAnkle \<leftarrow> at_index landmarks 28;
     let leftValgus = jmul (jabs (jsub (Fin (x leftKnee)) (Fin (x leftAnkle)))) (Fin 100);
     let rightValgus = jmul (jabs (jsub (Fin (x rightKnee)) (Fin (x rightAnkle)))) (Fin 100);
     Some (Math_max leftValgus rightValgus)
   }"

definition calculateBackAngle :: "PoseLandmark list \<Rightarrow> real option" where
  "calculateBackAngle landmarks = do {
     shoulder \<leftarrow> at_index landmarks 11;
     hip \<leftarrow> at_index landmarks 23;
     let angle = Math_atan2 (y shoulder - y hip) (x shoulder - x hip) * (180 / pi);
     Some \<bar>angle\<bar>
   }"

definition calculateSquatDepth :: "PoseLandmark list \<Rightarrow> jsnum option" where
  "calculateSquatDepth landmarks = do {
     hip \<leftarrow> at_index landmarks 23;
     knee \<leftarrow> at_index landmarks 25;
     let depth = jmul (jabs (jsub (Fin (y hip)) (Fin (y knee)))) (Fin 100);
     Some (Math_min (Fin 100) depth)
   }"

text \<open>
  The loop of \<open>calculateBilateralSymmetry\<close> over the pairs of a left and a right
  landmark, with the running \<open>symmetryScore\<close>.
\<close>

fun symmetryLoop :: "(PoseLandmark \<times> PoseLandmark) list \<Rightarrow> jsnum \<Rightarrow> jsnum" where
  "symmetryLoop [] symmetryScore = symmetryScore"
| "symmetryLoop ((l, r) # rest) symmetryScore =
     (let leftY = Fin (y l); rightY = Fin (y r); diff = jabs (jsub leftY rightY)
      in symmetryLoop rest
           (jadd symmetryScore (Math_max (Fin 0) (jsub (Fin 1) (jmul diff (Fin 10))))))"

definition calculateBilateralSymmetry :: "PoseLandmark list \<Rightarrow> jsnum option" where
  "calculateBilateralSymmetry landmarks = do {
     leftSide \<leftarrow> those (map (at_index landmarks) [11, 13, 15, 23, 25, 27]);
     rightSide \<leftarrow> those (map (at_index landmarks) [12, 14, 16, 24, 26, 28]);
     Some (jdiv (symmetryLoop (zip leftSide rightSide) (Fin 0)) (Fin (real (length leftSide))))
   }"

text \<open>
  The body of the loop of \<open>calculateStability\<close> for the landmark \<open>i\<close>: the variance of
  its position over the recent frames, which are five (the caller's guard).
\<close>

definition landmarkVariance :: "PoseLandmark list list \<Rightarrow> nat \<Rightarrow> jsnum option" where
  "landmarkVariance recentFrames i = do {
     positions \<leftarrow> those (map (\<lambda>frame. at_index frame i) recentFrames);
     let n = Fin (real (length positions));
     let avgX = jdiv (fold (\<lambda>p sum. jadd sum (Fin (x p))) positions (Fin 0)) n;
     let avgY = jdiv (fold (\<lambda>p sum. jadd sum (Fin (y p))) positions (Fin 0)) n;
     Some (jdiv (fold (\<lambda>p sum. jadd (jadd sum (Math_pow_2 (jsub (Fin (x p)) avgX)))
                                    (Math_pow_2 (jsub (Fin (y p)) avgY)))
                   positions (Fin 0))
                n)
   }"

fun stabilityLoop :: "PoseLandmark list list \<Rightarrow> nat list \<Rightarrow> jsnum \<Rightarrow> jsnum option" where
  "stabilityLoop recentFrames [] totalVariance = Some totalVariance"
| "stabilityLoop recentFrames (i # rest) totalVariance = do {
     variance \<leftarrow> landmarkVariance recentFrames i;
     stabilityLoop recentFrames rest (jadd totalVariance variance)
   }"

definition calculateStability :: "ExerciseAnalyzer \<Rightarrow> PoseLandmark list \<Rightarrow> jsnum option" where
  "calculateStability this landmarks =
     (if length (frameHistory this) < 5 then Some (Fin 0.5)
      else do {
        let recentFrames = slice_last 5 (frameHistory this);
        totalVariance \<leftarrow> stabilityLoop recentFrames [0..<length landmarks] (Fin 0);
        Some (Math_max (Fin 0) (jsub (Fin 1) (jmul totalVariance (Fin 100))))
      })"

definition analyzePushupAlignment :: "PoseLandmark list \<Rightarrow> jsnum option" where
  "analyzePushupAlignment landmarks = do {
     shoulder \<leftarrow> at_index landmarks 11;
     hip \<leftarrow> at_index landmarks 23;
     ankle \<leftarrow> at_index landmarks 27;
     let expectedHipY =
           jadd (Fin (y shoulder)) (jmul (jsub (Fin (y ankle)) (Fin (y shoulder))) (round64 0.6));
     let hipSag = jmul (jabs (jsub (Fin (y hip)) expectedHipY)) (Fin 100);
     Some hipSag
   }"

definition calculatePushupROM :: "ExerciseAnalyzer \<Rightarrow> PoseLandmark list \<Rightarrow> jsnum option" where
  "calculatePushupROM this landmarks =
     (if length (frameHistory this) < 10 then Some (Fin 50)
      else do {
        shoulderHeights \<leftarrow> those (map (\<lambda>frame. map_option y (at_index frame 11)) (frameHistory this));
        let maxHeight = Math_max_spread shoulderHeights;
        let minHeight = Math_min_spread shoulderHeights;
        Some (jmul (jsub maxHeight minHeight) (Fin 100))
      })"

definition analyzePlankAlignment :: "PoseLandmark list \<Rightarrow> jsnum option" where
  "analyzePlankAlignment landmarks = do {
     shoulder \<leftarrow> at_index landmarks 11;
     hip \<leftarrow> at_index landmarks 23;
     ankle \<leftarrow> at_index landmarks 27;
     let expectedHipY =
           jadd (Fin (y shoulder)) (jmul (jsub (Fin (y ankle)) (Fin (y shoulder))) (round64 0.6));
     let deviation = jmul (jabs (jsub (Fin (y hip)) expectedHipY)) (Fin 100);
     Some deviation
   }"

definition calculateHipPosition :: "PoseLandmark list \<Rightarrow> jsnum option" where
  "calculateHipPosition landmarks = do {
     hip \<leftarrow> at_index landmarks 23;
     Some (Fin (y hip))
   }"

definition analyzeFrontKneeAlignment :: "PoseLandmark list \<Rightarrow> jsnum option" where
  "analyzeFrontKneeAlignment landmarks = do {
     knee \<leftarrow> at_index landmarks 25;
     ankle \<leftarrow> at_index landmarks 27;
     let overAnkle = jmul (jabs (jsub (Fin (x knee)) (Fin (x ankle)))) (Fin 100);
     Some overAnkle
   }"

definition calculateTorsoLean :: "PoseLandmark list \<Rightarrow> real option" where
  "calculateTorsoLean landmarks = do {
     shoulder \<leftarrow> at_index landmarks 11;
     hip \<leftarrow> at_index landmarks 23;
     let angle = Math_atan2 (x shoulder - x hip) (y shoulder - y hip) * (180 / pi);
     Some \<bar>angle\<bar>
   }"

definition calculateCoreStability :: "ExerciseAnalyzer \<Rightarrow> PoseLandmark list \<Rightarrow> jsnum option" where
  "calculateCoreStability this landmarks = calculateStability this landmarks"

definition calculatePlankStability :: "ExerciseAnalyzer \<Rightarrow> PoseLandmark list \<Rightarrow> jsnum option" where
  "calculatePlankStability this landmarks = calculateStability this landmarks"

definition calculateSingleLegStability :: "ExerciseAnalyzer \<Rightarrow> PoseLandmark list \<Rightarrow> jsnum option" where
  "calculateSingleLegStability this landmarks = calculateStability this landmarks"

definition calculateLateralSymmetry :: "PoseLandmark list \<Rightarrow> jsnum option" where
  "calculateLateralSymmetry landmarks = calculateBilateralSymmetry landmarks"

definition calculateFrontHipAngle :: "PoseLandmark list \<Rightarrow> jsnum option" where
  "calculateFrontHipAngle landmarks = calculateHipAngle landmarks"

definition calculateFrontKneeAngle :: "PoseLandmark list \<Rightarrow> jsnum option" where
  "calculateFrontKneeAngle landmarks = calculateKneeAngle landmarks"

definition calculateBackHipAngle :: "PoseLandmark list \<Rightarrow> jsnum option" where
  "calculateBackHipAngle landmarks = calculateHipAngle landmarks"

definition calculateLungeDepth :: "PoseLandmark list \<Rightarrow> jsnum option" where
  "calculateLungeDepth landmarks = calculateSquatDepth landmarks"

definition calculateMovementTiming :: jsnum where
  "calculateMovementTiming = Fin 1"

definition calculateHoldTime :: jsnum where
  "calculateHoldTime = Fin 1"

subsection \<open>Phase detection\<close>

text \<open>
  The three detectors differ in the landmark they track only: \<open>trackedPhase k\<close> is their
  common body, for the landmark \<open>k\<close>. The first read, of the current frame, is of a
  variable the body never uses, but it raises when the frame is too short.
\<close>

definition trackedPhase :: "nat \<Rightarrow> ExerciseAnalyzer \<Rightarrow> PoseLandmark list \<Rightarrow> string option" where
  "trackedPhase k this landmarks = do {
     current \<leftarrow> at_index landmarks k;
     let height = y current;
     if length (frameHistory this) < 3 then Some ''starting''
     else do {
       recentHeights \<leftarrow> those (map (\<lambda>frame. map_option y (at_index frame k))
                                   (slice_last 3 (frameHistory this)));
       let trend = jsub (num_at recentHeights 2) (num_at recentHeights 0);
       if jgt trend (round64 0.01) then Some ''descending''
       else if jlt trend (jneg (round64 0.01)) then Some ''ascending''
       else Some ''bottom''
     }
   }"

definition detectSquatPhase :: "ExerciseAnalyzer \<Rightarrow> PoseLandmark list \<Rightarrow> string option" where
  "detectSquatPhase this landmarks = trackedPhase 23 this landmarks"

definition detectPushupPhase :: "ExerciseAnalyzer \<Rightarrow> PoseLandmark list \<Rightarrow> string option" where
  "detectPushupPhase this landmarks = trackedPhase 11 this landmarks"

definition detectLungePhase :: "ExerciseAnalyzer \<Rightarrow> PoseLandmark list \<Rightarrow> string option" where
  "detectLungePhase this landmarks = trackedPhase 23 this landmarks"

subsection \<open>The default assessment\<close>

definition getDefaultAssessment :: FormAssessment where
  "getDefaultAssessment =
     \<lparr>score = 75,
      criticalErrors = [],
      minorIssues = [],
      strengths = [''Exercise detected''],
      phase = ''unknown'',
      biomechanics =
        \<lparr>jointAngles = [],
         symmetry = round64 0.8,
         stability = round64 0.7,
         range_rom = round64 0.8,
         timing = Fin 1\<rparr>\<rparr>"

subsection \<open>Biomechanics summaries\<close>

definition calculateSquatBiomechanics ::
  "ExerciseAnalyzer \<Rightarrow> PoseLandmark list \<Rightarrow> BiomechanicalAnalysis option" where
  "calculateSquatBiomechanics this landmarks = do {
     hip \<leftarrow> calculateHipAngle landmarks;
     knee \<leftarrow> calculateKneeAngle landmarks;
     ankle \<leftarrow> calculateAnkleAngle landmarks;
     sym \<leftarrow> calculateBilateralSymmetry landmarks;
     stab \<leftarrow> calculateStability this landmarks;
     depth \<leftarrow> calculateSquatDepth landmarks;
     Some \<lparr>jointAngles = [(''hip'', hip), (''knee'', knee), (''ankle'', ankle)],
           symmetry = sym,
           stability = stab,
           range_rom = jdiv depth (Fin 100),
           timing = calculateMovementTiming\<rparr>
   }"

definition calculatePushupBiomechanics ::
  "ExerciseAnalyzer \<Rightarrow> PoseLandmark list \<Rightarrow> BiomechanicalAnalysis option" where
  "calculatePushupBiomechanics this landmarks = do {
     shoulder \<leftarrow> calculateShoulderAngle landmarks;
     elbow \<leftarrow> calculateElbowAngle landmarks;
     wrist \<leftarrow> calculateWristAngle landmarks;
     sym \<leftarrow> calculateBilateralSymmetry landmarks;
     stab \<leftarrow> calculateCoreStability this landmarks;
     rom \<leftarrow> calculatePushupROM this landmarks;
     Some \<lparr>jointAngles = [(''shoulder'', shoulder), (''elbow'', elbow), (''wrist'', wrist)],
           symmetry = sym,
           stability = stab,
           range_rom = jdiv rom (Fin 100),
           timing = calculateMovementTiming\<rparr>
   }"

definition calculatePlankBiomechanics ::
  "ExerciseAnalyzer \<Rightarrow> PoseLandmark list \<Rightarrow> BiomechanicalAnalysis option" where
  "calculatePlankBiomechanics this landmarks = do {
     shoulder \<leftarrow> calculateShoulderAngle landmarks;
     hip \<leftarrow> calculateHipAngle landmarks;
     spine \<leftarrow> calculateSpinalAngle landmarks;
     sym \<leftarrow> calculateBilateralSymmetry landmarks;
     stab \<leftarrow> calculatePlankStability this landmarks;
     Some \<lparr>jointAngles = [(''shoulder'', shoulder), (''hip'', hip), (''spine'', spine)],
           symmetry = sym,
           stability = stab,
           range_rom = Fin 1,
           timing = calculateHoldTime\<rparr>
   }"

definition calculateLungeBiomechanics ::
  "ExerciseAnalyzer \<Rightarrow> PoseLandmark list \<Rightarrow> BiomechanicalAnalysis option" where
  "calculateLungeBiomechanics this landmarks = do {
     frontHip \<leftarrow> calculateFrontHipAngle landmarks;
     frontKnee \<leftarrow> calculateFrontKneeAngle landmarks;
     backHip \<leftarrow> calculateBackHipAngle landmarks;
     sym \<leftarrow> calculateLateralSymmetry landmarks;
     stab \<leftarrow> calculateSingleLegStability this landmarks;
     depth \<leftarrow> calculateLungeDepth landmarks;
     Some \<lparr>jointAngles = [(''frontHip'', frontHip), (''frontKnee'', frontKnee), (''backHip'', backHip)],
           symmetry = sym,
           stability = stab,
           range_rom = jdiv depth (Fin 100),
           timing = calculateMovementTiming\<rparr>
   }"

subsection \<open>The analyzers\<close>

text \<open>
  The three arrays of findings that an analyzer fills, as a triple (critical errors,
  minor issues, strengths), and the three \<open>push\<close> calls.
\<close>

type_synonym findings = "string list \<times> string list \<times> string list"

fun pushCritical :: "string \<Rightarrow> findings \<Rightarrow> findings" where
  "pushCritical msg (c, m, s) = (c @ [msg], m, s)"

fun pushMinor :: "string \<Rightarrow> findings \<Rightarrow> findings" where
  "pushMinor msg (c, m, s) = (c, m @ [msg], s)"

fun pushStrength :: "string \<Rightarrow> findings \<Rightarrow> findings" where
  "pushStrength msg (c, m, s) = (c, m, s @ [msg])"

text \<open>The object an analyzer returns, scored from the arrays it has filled.\<close>

fun assessment :: "findings \<Rightarrow> string \<Rightarrow> BiomechanicalAnalysis \<Rightarrow> FormAssessment" where
  "assessment (c, m, s) ph bio =
     \<lparr>score = calculateFormScore c m s,
      criticalErrors = c,
      minorIssues = m,
      strengths = s,
      phase = ph,
      biomechanics = bio\<rparr>"

definition analyzeSquat :: "ExerciseAnalyzer \<Rightarrow> PoseLandmark list \<Rightarrow> FormAssessment option" where
  "analyzeSquat this landmarks = do {
     bio \<leftarrow> calculateSquatBiomechanics this landmarks;
     ph \<leftarrow> detectSquatPhase this landmarks;
     let f = ([], [], []);
     kneeAlignment \<leftarrow> analyzeKneeAlignment landmarks;
     let f = (if jgt kneeAlignment (Fin 15) then pushCritical ''Knees caving inward - risk of injury'' f
              else if jgt kneeAlignment (Fin 8) then pushMinor ''Slight knee valgus - focus on external rotation'' f
              else pushStrength ''Good knee alignment'' f);
     backAngle \<leftarrow> calculateBackAngle landmarks;
     let f = (if backAngle > 45 then pushCritical ''Excessive forward lean - maintain upright torso'' f
              else if backAngle > 30 then pushMinor ''Slight forward lean - engage core more'' f
              else pushStrength ''Good torso position'' f);
     depth \<leftarrow> calculateSquatDepth landmarks;
     let f = (if jlt depth (Fin 70) then pushMinor ''Increase squat depth for full range of motion'' f
              else pushStrength ''Good squat depth'' f);
     let f = (if jlt (symmetry bio) (round64 0.85) then pushMinor ''Slight asymmetry detected - check balance'' f
              else pushStrength ''Good bilateral symmetry'' f);
     Some (assessment f ph bio)
   }"

definition analyzePushup :: "ExerciseAnalyzer \<Rightarrow> PoseLandmark list \<Rightarrow> FormAssessment option" where
  "analyzePushup this landmarks = do {
     bio \<leftarrow> calculatePushupBiomechanics this landmarks;
     ph \<leftarrow> detectPushupPhase this landmarks;
     let f = ([], [], []);
     hipSag \<leftarrow> analyzePushupAlignment landmarks;
     let f = (if jgt hipSag (Fin 20) then pushCritical ''Hips sagging - engage core muscles'' f
              else if jgt hipSag (Fin 10) then pushMinor ''Slight hip sag - tighten core'' f
              else pushStrength ''Good plank position'' f);
     elbowAngle \<leftarrow> calculateElbowAngle landmarks;
     let f = (if jgt elbowAngle (Fin 90) then pushMinor ''Elbows flaring too wide - aim for 45 degrees'' f
              else pushStrength ''Good elbow position'' f);
     rom \<leftarrow> calculatePushupROM this landmarks;
     let f = (if jlt rom (Fin 60) then pushMinor ''Increase range of motion - lower chest closer to ground'' f
              else pushStrength ''Good range of motion'' f);
     Some (assessment f ph bio)
   }"

definition analyzePlank :: "ExerciseAnalyzer \<Rightarrow> PoseLandmark list \<Rightarrow> FormAssessment option" where
  "analyzePlank this landmarks = do {
     bio \<leftarrow> calculatePlankBiomechanics this landmarks;
     let ph = ''hold'';
     let f = ([], [], []);
     deviation \<leftarrow> analyzePlankAlignment landmarks;
     let f = (if jgt deviation (Fin 25) then pushCritical ''Significant spinal misalignment'' f
              else if jgt deviation (Fin 15) then pushMinor ''Minor spinal deviation - adjust position'' f
              else pushStrength ''Excellent spinal alignment'' f);
     height \<leftarrow> calculateHipPosition landmarks;
     let f = (if jlt height (round64 0.3) then pushCritical ''Hips too low - lift to neutral'' f
              else if jgt height (round64 0.7) then pushCritical ''Hips too high - lower to neutral'' f
              else pushStrength ''Good hip position'' f);
     let f = (if jlt (stability bio) (round64 0.7) then pushMinor ''Work on stability - reduce trembling'' f
              else pushStrength ''Good stability'' f);
     Some (assessment f ph bio)
   }"

definition analyzeLunge :: "ExerciseAnalyzer \<Rightarrow> PoseLandmark list \<Rightarrow> FormAssessment option" where
  "analyzeLunge this landmarks = do {
     bio \<leftarrow> calculateLungeBiomechanics this landmarks;
     ph \<leftarrow> detectLungePhase this landmarks;
     let f = ([], [], []);
     overAnkle \<leftarrow> analyzeFrontKneeAlignment landmarks;
     let f = (if jgt overAnkle (Fin 20) then pushCritical ''Front knee too far forward - shift weight back'' f
              else if jgt overAnkle (Fin 10) then pushMinor ''Front knee slightly forward - adjust stance'' f
              else pushStrength ''Good front knee position'' f);
     torsoLean \<leftarrow> calculateTorsoLean landmarks;
     let f = (if torsoLean > 20 then pushMinor ''Excessive forward lean - keep torso upright'' f
              else pushStrength ''Good torso position'' f);
     let f = (if jlt (stability bio) (round64 0.6) then pushMinor ''Work on balance - engage core'' f
              else pushStrength ''Good balance'' f);
     Some (assessment f ph bio)
   }"

subsection \<open>The public method\<close>

text \<open>
  \<open>analyzeExercise\<close> returns the assessment, or \<open>None\<close> when the analyzer raised, and the
  instance after the call: the frame is in the history by then in both cases.
\<close>

definition analyzeExercise ::
  "ExerciseAnalyzer \<Rightarrow> PoseLandmark list \<Rightarrow> string \<Rightarrow> FormAssessment option \<times> ExerciseAnalyzer" where
  "analyzeExercise this landmarks exercise =
     (let this = this\<lparr>frameHistory := frameHistory this @ [landmarks]\<rparr>;
          this = (if length (frameHistory this) > maxHistoryFrames
                  then this\<lparr>frameHistory := tl (frameHistory this)\<rparr>
                  else this)
      in (if exercise = ''squat'' then analyzeSquat this landmarks
          else if exercise = ''pushup'' then analyzePushup this landmarks
          else if exercise = ''plank'' then analyzePlank this landmarks
          else if exercise = ''lunge'' then analyzeLunge this landmarks
          else Some getDefaultAssessment,
          this))"

text \<open>
  The instance after a sequence of calls, each one a frame and an exercise, whatever
  each call returned.
\<close>

fun afterCalls :: "ExerciseAnalyzer \<Rightarrow> (PoseLandmark list \<times> string) list \<Rightarrow> ExerciseAnalyzer" where
  "afterCalls this [] = this"
| "afterCalls this ((landmarks, exercise) # rest) =
     afterCalls (snd (analyzeExercise this landmarks exercise)) rest"

subsection \<open>Well-formed input\<close>

text \<open>
  A well-formed frame has the 33 landmarks of the pose model. The frames of the history
  are the frames of the calls made so far, so they are well-formed when those were.
\<close>

definition wellFormed :: "PoseLandmark list \<Rightarrow> bool" where
  "wellFormed landmarks = (length landmarks = 33)"

definition historyWellFormed :: "ExerciseAnalyzer \<Rightarrow> bool" where
  "historyWellFormed this = list_all wellFormed (frameHistory this)"

text \<open>
  Frames for the examples: every landmark at the centre of the image, and variants.
  Their coordinates are multiples of \<open>1 / 32\<close>, which are doubles.
\<close>

definition centre :: PoseLandmark where
  "centre = \<lparr>x = 0.5, y = 0.5, z = 0, visibility = 1\<rparr>"

definition centreFrame :: "PoseLandmark list" where
  "centreFrame = replicate 33 centre"

text \<open>A visible landmark at a given position of the image.\<close>

definition landmarkAt :: "real \<Rightarrow> real \<Rightarrow> PoseLandmark" where
  "landmarkAt a b = \<lparr>x = a, y = b, z = 0, visibility = 1\<rparr>"

definition hipLowerFrame :: "PoseLandmark list" where
  "hipLowerFrame = centreFrame[23 := landmarkAt 0.5 0.625]"


definition sagFrame :: "real \<Rightarrow> PoseLandmark list" where
  "sagFrame hipY =
     centreFrame[11 := landmarkAt 0.5 0.125, 27 := landmarkAt 0.5 0.125, 23 := landmarkAt 0.5 hipY]"

text \<open>
  A frame with other horizontal positions for the two knees and the two ankles, and
  everything else as it is.
\<close>

definition withKneeAnkleX :: "PoseLandmark list \<Rightarrow> real \<Rightarrow> real \<Rightarrow> real \<Rightarrow> real \<Rightarrow> PoseLandmark list" where
  "withKneeAnkleX landmarks leftKneeX rightKneeX leftAnkleX rightAnkleX =
     landmarks[25 := (landmarks ! 25)\<lparr>x := leftKneeX\<rparr>,
               26 := (landmarks ! 26)\<lparr>x := rightKneeX\<rparr>,
               27 := (landmarks ! 27)\<lparr>x := leftAnkleX\<rparr>,
               28 := (landmarks ! 28)\<lparr>x := rightAnkleX\<rparr>]"

definition kneeOutFrame :: "PoseLandmark list" where
  "kneeOutFrame = centreFrame[25 := landmarkAt 0.75 0.5]"

definition valgusFrame :: "PoseLandmark list" where
  "valgusFrame = centreFrame[11 := landmarkAt 0.875 0.125, 12 := landmarkAt 0.875 0.125,
                              23 := landmarkAt 0.5 0.125, 24 := landmarkAt 0.5 0.125,
                              25 := landmarkAt 0.75 0.875, 26 := landmarkAt 0.5 0.875]"

section \<open>Properties\<close>

subsection \<open>Rounding\<close>

text \<open>
  The rounding of a number in a known binade, of a number that is a double already, and
  of the decimal literals of the class.
\<close>

lemma round64_0 [simp]: "round64 0 = Fin 0"
  by (simp add: round64_def)

lemma ulp_exponent_binade:
  assumes "2 powi k \<le> \<bar>a\<bar>" "\<bar>a\<bar> < 2 powi (k + 1)"
  shows "ulp_exponent a = max k (- 1022) - 52"
proof -
  have pos: "0 < \<bar>a\<bar>"
    using assms(1) by (smt (verit) zero_less_power_int)
  have "2 powr real_of_int k = 2 powi k" "2 powr (real_of_int k + 1) = 2 powi (k + 1)"
    using powr_real_of_int'[of 2 k] powr_real_of_int'[of 2 "k + 1"] by simp_all
  then have "\<lfloor>log 2 \<bar>a\<bar>\<rfloor> = k"
    using assms pos by (simp add: floor_log_eq_powr_iff)
  then show ?thesis by (simp add: ulp_exponent_def)
qed

lemma round64_binade:
  assumes "2 powi k \<le> \<bar>a\<bar>" "\<bar>a\<bar> < 2 powi (k + 1)"
  shows "round64 a =
     (let e = max k (- 1022) - 52;
          v = of_int (round_half_even (a / 2 powi e)) * 2 powi e
      in if 2 ^ 1024 \<le> \<bar>v\<bar> then (if 0 < a then PosInf else NegInf) else Fin v)"
proof -
  have "a \<noteq> 0"
    using assms(1) by (smt (verit) zero_less_power_int)
  then show ?thesis
    by (simp add: round64_def ulp_exponent_binade[OF assms])
qed

lemma round_half_even_of_int [simp]: "round_half_even (of_int w) = w"
  by (simp add: round_half_even_def)

lemma ulp_exponent_le:
  assumes "a \<noteq> 0" "\<bar>a\<bar> * 2 ^ n < 2 ^ 53" "n \<le> 1074"
  shows "ulp_exponent a \<le> - int n"
proof -
  let ?k = "\<lfloor>log 2 \<bar>a\<bar>\<rfloor>"
  have pos: "0 < \<bar>a\<bar>" using assms(1) by simp
  have "2 powr real_of_int ?k \<le> \<bar>a\<bar>"
    using floor_log_eq_powr_iff[of "\<bar>a\<bar>" 2 ?k] pos by simp
  also have "\<bar>a\<bar> < 2 ^ 53 / 2 ^ n"
    using assms(2) by (simp add: field_simps)
  also have "(2::real) ^ 53 / 2 ^ n = 2 powr (53 - real n)"
    by (simp add: powr_diff powr_realpow)
  finally have "real_of_int ?k < 53 - real n" by simp
  then have "?k < 53 - int n" by linarith
  then show ?thesis using assms(3) by (simp add: ulp_exponent_def)
qed

lemma round64_exact:
  assumes "a * 2 ^ n \<in> \<int>" "\<bar>a * 2 ^ n\<bar> < 2 ^ 53" "n \<le> 1074"
  shows "round64 a = Fin a"
proof (cases "a = 0")
  case True
  then show ?thesis by simp
next
  case False
  obtain m :: int where m: "a * 2 ^ n = of_int m"
    using assms(1) by (auto elim: Ints_cases)
  define e where "e = ulp_exponent a"
  have le: "e \<le> - int n"
    unfolding e_def using False assms(2,3) by (intro ulp_exponent_le) (simp_all add: abs_mult)
  define j where "j = nat (- int n - e)"
  have e: "e = - int n - int j" using le by (simp add: j_def)
  have p: "(2::real) powi e = 1 / (2 ^ n * 2 ^ j)"
    unfolding e by (simp add: power_int_diff power_int_minus field_simps)
  have a: "a = of_int m / 2 ^ n"
    using m by (simp add: field_simps)
  have q: "a / 2 powi e = of_int (m * 2 ^ j)"
    unfolding p a by simp
  have v: "of_int (round_half_even (a / 2 powi e)) * 2 powi e = a"
    unfolding q round_half_even_of_int unfolding p a by simp
  have "\<bar>a\<bar> \<le> \<bar>a * 2 ^ n\<bar>"
    by (simp add: abs_mult mult_le_cancel_left1)
  moreover have "(2::real) ^ 53 < 2 ^ 1024" by simp
  ultimately have "\<bar>a\<bar> < 2 ^ 1024"
    using assms(2) by linarith
  then show ?thesis
    using False v by (simp add: round64_def Let_def e_def)
qed

lemma round64_32:
  "a * 32 \<in> \<int> \<Longrightarrow> \<bar>a * 32\<bar> < 9007199254740992 \<Longrightarrow> round64 a = Fin a"
  using round64_exact[of a 5] by simp

lemma lit_001: "round64 0.01 = Fin (5764607523034235 / 2 ^ 59)"
  by (subst round64_binade[where k = "- 7"]) (simp_all add: round_half_even_def power_int_minus)

lemma lit_03: "round64 0.3 = Fin (5404319552844595 / 2 ^ 54)"
  by (subst round64_binade[where k = "- 2"]) (simp_all add: round_half_even_def power_int_minus)

lemma lit_06: "round64 0.6 = Fin (5404319552844595 / 2 ^ 53)"
  by (subst round64_binade[where k = "- 1"]) (simp_all add: round_half_even_def power_int_minus)

lemma lit_07: "round64 0.7 = Fin (6305039478318694 / 2 ^ 53)"
  by (subst round64_binade[where k = "- 1"]) (simp_all add: round_half_even_def power_int_minus)

lemma lit_085: "round64 0.85 = Fin (7656119366529843 / 2 ^ 53)"
  by (subst round64_binade[where k = "- 1"]) (simp_all add: round_half_even_def power_int_minus)

text \<open>The same with the literals as the simplifier writes them.\<close>

lemma literals:
  "round64 (1 / 100) = Fin (5764607523034235 / 2 ^ 59)"
  "round64 (3 / 10) = Fin (5404319552844595 / 2 ^ 54)"
  "round64 (3 / 5) = Fin (5404319552844595 / 2 ^ 53)"
  "round64 (7 / 10) = Fin (6305039478318694 / 2 ^ 53)"
  "round64 (17 / 20) = Fin (7656119366529843 / 2 ^ 53)"
  using lit_001 lit_03 lit_06 lit_07 lit_085 by simp_all

subsection \<open>Reads of well-formed frames\<close>

lemma at_index_wf [simp]: "wellFormed l \<Longrightarrow> i < 33 \<Longrightarrow> at_index l i = Some (l ! i)"
  by (simp add: at_index_def wellFormed_def)

lemma those_heights:
  "list_all wellFormed fs \<Longrightarrow> k < 33 \<Longrightarrow>
   those (map (\<lambda>frame. map_option y (at_index frame k)) fs) = Some (map (\<lambda>frame. y (frame ! k)) fs)"
  by (induction fs) simp_all

lemma those_positions:
  "list_all wellFormed fs \<Longrightarrow> k < 33 \<Longrightarrow>
   those (map (\<lambda>frame. at_index frame k) fs) = Some (map (\<lambda>frame. frame ! k) fs)"
  by (induction fs) simp_all

lemma landmarkVariance_total:
  "list_all wellFormed fs \<Longrightarrow> k < 33 \<Longrightarrow> \<exists>v. landmarkVariance fs k = Some v"
  by (simp add: landmarkVariance_def those_positions Let_def)

lemma stabilityLoop_total:
  "list_all wellFormed fs \<Longrightarrow> list_all (\<lambda>i. i < 33) ks \<Longrightarrow> \<exists>v. stabilityLoop fs ks tv = Some v"
proof (induction ks arbitrary: tv)
  case Nil
  then show ?case by simp
next
  case (Cons k ks)
  then obtain v where "landmarkVariance fs k = Some v"
    using landmarkVariance_total[of fs k] by auto
  with Cons show ?case by simp
qed

lemma list_all_slice_last: "list_all P xs \<Longrightarrow> list_all P (slice_last n xs)"
  by (auto simp: slice_last_def list_all_iff dest: in_set_dropD)

lemma calculateStability_total:
  assumes "historyWellFormed this" "wellFormed l"
  shows "\<exists>v. calculateStability this l = Some v"
proof -
  have "list_all (\<lambda>i. i < 33) [0..<length l]"
    using assms(2) by (simp add: wellFormed_def list_all_iff)
  moreover have "list_all wellFormed (slice_last 5 (frameHistory this))"
    using assms(1) by (simp add: historyWellFormed_def list_all_slice_last)
  ultimately obtain v
    where "stabilityLoop (slice_last 5 (frameHistory this)) [0..<length l] (Fin 0) = Some v"
    using stabilityLoop_total by blast
  then have "\<not> length (frameHistory this) < 5 \<Longrightarrow> ?thesis"
    by (simp add: calculateStability_def Let_def)
  moreover have "length (frameHistory this) < 5 \<Longrightarrow> calculateStability this l = Some (Fin 0.5)"
    by (simp add: calculateStability_def)
  ultimately show ?thesis by blast
qed

lemma angleAt_wf: "wellFormed l \<Longrightarrow> i < 33 \<Longrightarrow> j < 33 \<Longrightarrow> k < 33 \<Longrightarrow>
   angleAt l i j k = Some (calculateAngle (l ! i) (l ! j) (l ! k))"
  by (simp add: angleAt_def)

lemma symmetry_wf: "wellFormed l \<Longrightarrow> \<exists>v. calculateBilateralSymmetry l = Some v"
  by (simp add: calculateBilateralSymmetry_def)

lemma pushupROM_total:
  assumes "historyWellFormed this"
  shows "\<exists>v. calculatePushupROM this l = Some v"
  using assms by (simp add: calculatePushupROM_def historyWellFormed_def those_heights Let_def)

lemma trackedPhase_wf:
  assumes "historyWellFormed this" "wellFormed l" "k < 33"
  shows "trackedPhase k this l =
     Some (if length (frameHistory this) < 3 then ''starting''
           else let h = frameHistory this;
                    trend = jsub (Fin (y (last h ! k))) (Fin (y (h ! (length h - 3) ! k)))
                in if jgt trend (round64 0.01) then ''descending''
                   else if jlt trend (jneg (round64 0.01)) then ''ascending'' else ''bottom'')"
proof (cases "length (frameHistory this) < 3")
  case True
  then show ?thesis using assms by (simp add: trackedPhase_def)
next
  case False
  let ?h = "frameHistory this"
  let ?r = "slice_last 3 ?h"
  have wf: "list_all wellFormed ?r"
    using assms(1) by (simp add: historyWellFormed_def list_all_slice_last)
  have len: "length ?r = 3" using False by (simp add: slice_last_def)
  have r0: "?r ! 0 = ?h ! (length ?h - 3)" using False by (simp add: slice_last_def)
  have ne: "?h \<noteq> []" using False by auto
  have "length ?h - 3 + 2 = length ?h - 1" using False by simp
  then have r2: "?r ! 2 = last ?h"
    using False by (simp add: slice_last_def last_conv_nth[OF ne])
  have ner: "?r \<noteq> []" using len by auto
  show ?thesis
    using False assms wf len r0 r2 ner
    by (simp add: trackedPhase_def those_heights num_at_def Let_def)
qed

lemma analyzeKneeAlignment_wf:
  "wellFormed l \<Longrightarrow> analyzeKneeAlignment l =
     Some (Math_max (jmul (jabs (jsub (Fin (x (l ! 25))) (Fin (x (l ! 27))))) (Fin 100))
                    (jmul (jabs (jsub (Fin (x (l ! 26))) (Fin (x (l ! 28))))) (Fin 100)))"
  by (simp add: analyzeKneeAlignment_def Let_def)

lemma calculateBackAngle_wf:
  "wellFormed l \<Longrightarrow> calculateBackAngle l =
     Some \<bar>Math_atan2 (y (l ! 11) - y (l ! 23)) (x (l ! 11) - x (l ! 23)) * (180 / pi)\<bar>"
  by (simp add: calculateBackAngle_def Let_def)

lemma calculateSquatDepth_wf:
  "wellFormed l \<Longrightarrow> calculateSquatDepth l =
     Some (Math_min (Fin 100) (jmul (jabs (jsub (Fin (y (l ! 23))) (Fin (y (l ! 25))))) (Fin 100)))"
  by (simp add: calculateSquatDepth_def Let_def)

lemma analyzePushupAlignment_wf:
  "wellFormed l \<Longrightarrow> \<exists>v. analyzePushupAlignment l = Some v"
  by (simp add: analyzePushupAlignment_def Let_def)

lemma analyzePlankAlignment_wf:
  "wellFormed l \<Longrightarrow> analyzePlankAlignment l =
     Some (jmul (jabs (jsub (Fin (y (l ! 23)))
                   (jadd (Fin (y (l ! 11)))
                      (jmul (jsub (Fin (y (l ! 27))) (Fin (y (l ! 11)))) (round64 0.6)))))
             (Fin 100))"
  by (simp add: analyzePlankAlignment_def Let_def)

lemma calculateHipPosition_wf:
  "wellFormed l \<Longrightarrow> calculateHipPosition l = Some (Fin (y (l ! 23)))"
  by (simp add: calculateHipPosition_def)

lemma analyzeFrontKneeAlignment_wf:
  "wellFormed l \<Longrightarrow> \<exists>v. analyzeFrontKneeAlignment l = Some v"
  by (simp add: analyzeFrontKneeAlignment_def Let_def)

lemma calculateTorsoLean_wf:
  "wellFormed l \<Longrightarrow> calculateTorsoLean l =
     Some \<bar>Math_atan2 (x (l ! 11) - x (l ! 23)) (y (l ! 11) - y (l ! 23)) * (180 / pi)\<bar>"
  by (simp add: calculateTorsoLean_def Let_def)

lemmas angle_defs =
  calculateHipAngle_def calculateKneeAngle_def calculateAnkleAngle_def
  calculateShoulderAngle_def calculateElbowAngle_def calculateWristAngle_def
  calculateSpinalAngle_def calculateFrontHipAngle_def calculateFrontKneeAngle_def
  calculateBackHipAngle_def

lemma squatBiomechanics_wf:
  assumes "historyWellFormed this" "wellFormed l"
  shows "\<exists>bio. calculateSquatBiomechanics this l = Some bio \<and>
           Some (symmetry bio) = calculateBilateralSymmetry l"
proof -
  obtain st where "calculateStability this l = Some st"
    using calculateStability_total[OF assms] by blast
  moreover obtain sy where "calculateBilateralSymmetry l = Some sy"
    using symmetry_wf[OF assms(2)] by blast
  ultimately show ?thesis
    using assms(2)
    by (simp add: calculateSquatBiomechanics_def angle_defs angleAt_wf calculateSquatDepth_wf)
qed

lemma pushupBiomechanics_wf:
  assumes "historyWellFormed this" "wellFormed l"
  shows "\<exists>bio. calculatePushupBiomechanics this l = Some bio"
proof -
  obtain st where "calculateStability this l = Some st"
    using calculateStability_total[OF assms] by blast
  moreover obtain rom where "calculatePushupROM this l = Some rom"
    using pushupROM_total[OF assms(1)] by blast
  moreover obtain sy where "calculateBilateralSymmetry l = Some sy"
    using symmetry_wf[OF assms(2)] by blast
  ultimately show ?thesis
    using assms(2)
    by (simp add: calculatePushupBiomechanics_def angle_defs angleAt_wf calculateCoreStability_def)
qed

lemma plankBiomechanics_wf:
  assumes "historyWellFormed this" "wellFormed l"
  shows "\<exists>bio. calculatePlankBiomechanics this l = Some bio \<and>
           Some (stability bio) = calculateStability this l"
proof -
  obtain st where "calculateStability this l = Some st"
    using calculateStability_total[OF assms] by blast
  moreover obtain sy where "calculateBilateralSymmetry l = Some sy"
    using symmetry_wf[OF assms(2)] by blast
  ultimately show ?thesis
    using assms(2)
    by (simp add: calculatePlankBiomechanics_def angle_defs angleAt_wf calculatePlankStability_def)
qed

lemma lungeBiomechanics_wf:
  assumes "historyWellFormed this" "wellFormed l"
  shows "\<exists>bio. calculateLungeBiomechanics this l = Some bio"
proof -
  obtain st where "calculateStability this l = Some st"
    using calculateStability_total[OF assms] by blast
  moreover obtain sy where "calculateBilateralSymmetry l = Some sy"
    using symmetry_wf[OF assms(2)] by blast
  ultimately show ?thesis
    using assms(2)
    by (simp add: calculateLungeBiomechanics_def angle_defs angleAt_wf
        calculateSingleLegStability_def calculateLateralSymmetry_def calculateLungeDepth_def
        calculateSquatDepth_wf)
qed

text \<open>The definitions that the evaluation of a call on a concrete frame unfolds.\<close>

lemmas eval_defs =
  analyzeExercise_def Let_def newExerciseAnalyzer_def maxHistoryFrames_def
  angle_defs angleAt_def at_index_def centreFrame_def centre_def
  calculateBilateralSymmetry_def calculateStability_def
  calculateCoreStability_def calculatePlankStability_def calculateSingleLegStability_def
  calculateLateralSymmetry_def calculateLungeDepth_def
  calculateHoldTime_def calculateMovementTiming_def
  trackedPhase_def detectSquatPhase_def detectPushupPhase_def detectLungePhase_def
  calculateFormScore_def jgt_def Math_min_def Math_max_def round64_32 literals

subsection \<open>The frame history\<close>

lemma history_after_call:
  "frameHistory (snd (analyzeExercise this landmarks exercise)) =
     (if length (frameHistory this) + 1 > 30 then tl (frameHistory this @ [landmarks])
      else frameHistory this @ [landmarks])"
  by (simp add: analyzeExercise_def Let_def maxHistoryFrames_def)

lemma history_afterCalls:
  "length (frameHistory this) \<le> 30 \<Longrightarrow>
   frameHistory (afterCalls this calls) =
     drop (length (frameHistory this) + length calls - 30) (frameHistory this @ map fst calls)"
proof (induction calls arbitrary: this)
  case Nil
  then show ?case by simp
next
  case (Cons c calls)
  obtain l e where c: "c = (l, e)" by (cases c)
  let ?s = "snd (analyzeExercise this l e)"
  show ?case
  proof (cases "length (frameHistory this) = 30")
    case True
    then have ne: "frameHistory this \<noteq> []" by auto
    have h: "frameHistory ?s = tl (frameHistory this) @ [l]"
      using True ne by (simp add: history_after_call)
    have len: "length (frameHistory ?s) = 30" using True h by simp
    have "frameHistory (afterCalls ?s calls) =
            drop (length calls) (tl (frameHistory this) @ [l] @ map fst calls)"
      using Cons.IH[of ?s] len h by simp
    also have "\<dots> = drop (Suc (length calls)) (frameHistory this @ [l] @ map fst calls)"
      using ne by (cases "frameHistory this") simp_all
    finally show ?thesis using True c by simp
  next
    case False
    with Cons.prems have lt: "length (frameHistory this) < 30" by simp
    then have h: "frameHistory ?s = frameHistory this @ [l]"
      by (simp add: history_after_call)
    then have "length (frameHistory ?s) \<le> 30" using lt by simp
    from Cons.IH[OF this] h c show ?thesis by simp
  qed
qed

text \<open>
  C4. After any sequence of calls on a new instance the history holds at most 30 frames,
  and it is the frames of the calls, in call order, without the first ones when there
  are more than 30: the 30 most recent.
\<close>

theorem history_capacity:
  "length (frameHistory (afterCalls newExerciseAnalyzer calls)) \<le> 30 \<and>
   frameHistory (afterCalls newExerciseAnalyzer calls) = drop (length calls - 30) (map fst calls)"
proof -
  have "frameHistory (afterCalls newExerciseAnalyzer calls) = drop (length calls - 30) (map fst calls)"
    using history_afterCalls[of newExerciseAnalyzer calls] by (simp add: newExerciseAnalyzer_def)
  then show ?thesis by simp
qed

theorem history_capacity_witness:
  "frameHistory (afterCalls newExerciseAnalyzer
      (replicate 35 (centreFrame, ''squat'') @ [(hipLowerFrame, ''plank'')])) =
     replicate 29 centreFrame @ [hipLowerFrame]"
  using history_capacity[of "replicate 35 (centreFrame, ''squat'') @ [(hipLowerFrame, ''plank'')]"]
  by simp

subsection \<open>Totality\<close>

lemma historyWellFormed_after_call:
  assumes "historyWellFormed this" "wellFormed l"
  shows "historyWellFormed (snd (analyzeExercise this l e))"
proof -
  have "list_all wellFormed (frameHistory this @ [l])"
    using assms by (simp add: historyWellFormed_def)
  moreover have "list_all wellFormed (tl (frameHistory this @ [l]))"
    using calculation by (cases "frameHistory this") simp_all
  ultimately show ?thesis
    by (simp add: historyWellFormed_def history_after_call)
qed

lemma historyWellFormed_afterCalls:
  "historyWellFormed this \<Longrightarrow> list_all (\<lambda>c. wellFormed (fst c)) calls \<Longrightarrow>
   historyWellFormed (afterCalls this calls)"
proof (induction calls arbitrary: this)
  case Nil
  then show ?case by simp
next
  case (Cons c calls)
  obtain l e where c: "c = (l, e)" by (cases c)
  have "historyWellFormed (snd (analyzeExercise this l e))"
    using Cons.prems c by (simp add: historyWellFormed_after_call)
  then show ?case using Cons c by simp
qed

lemma analyzeSquat_total:
  assumes "historyWellFormed this" "wellFormed l"
  shows "\<exists>r. analyzeSquat this l = Some r"
proof -
  obtain bio where "calculateSquatBiomechanics this l = Some bio"
    using squatBiomechanics_wf[OF assms] by blast
  then show ?thesis
    using assms
    by (simp add: analyzeSquat_def detectSquatPhase_def trackedPhase_wf analyzeKneeAlignment_wf
        calculateBackAngle_wf calculateSquatDepth_wf Let_def split del: if_split)
qed

lemma analyzePushup_total:
  assumes "historyWellFormed this" "wellFormed l"
  shows "\<exists>r. analyzePushup this l = Some r"
proof -
  obtain bio where "calculatePushupBiomechanics this l = Some bio"
    using pushupBiomechanics_wf[OF assms] by blast
  moreover obtain rom where "calculatePushupROM this l = Some rom"
    using pushupROM_total[OF assms(1)] by blast
  moreover obtain hs where "analyzePushupAlignment l = Some hs"
    using analyzePushupAlignment_wf[OF assms(2)] by blast
  ultimately show ?thesis
    using assms
    by (simp add: analyzePushup_def detectPushupPhase_def trackedPhase_wf
        calculateElbowAngle_def angleAt_wf Let_def split del: if_split)
qed

lemma analyzePlank_total:
  assumes "historyWellFormed this" "wellFormed l"
  shows "\<exists>r. analyzePlank this l = Some r"
proof -
  obtain bio where "calculatePlankBiomechanics this l = Some bio"
    using plankBiomechanics_wf[OF assms] by blast
  then show ?thesis
    using assms
    by (simp add: analyzePlank_def analyzePlankAlignment_wf calculateHipPosition_wf
        Let_def split del: if_split)
qed

lemma analyzeLunge_total:
  assumes "historyWellFormed this" "wellFormed l"
  shows "\<exists>r. analyzeLunge this l = Some r"
proof -
  obtain bio where "calculateLungeBiomechanics this l = Some bio"
    using lungeBiomechanics_wf[OF assms] by blast
  moreover obtain oa where "analyzeFrontKneeAlignment l = Some oa"
    using analyzeFrontKneeAlignment_wf[OF assms(2)] by blast
  ultimately show ?thesis
    using assms
    by (simp add: analyzeLunge_def detectLungePhase_def trackedPhase_wf
        calculateTorsoLean_wf Let_def split del: if_split)
qed

lemma analyzeExercise_fst:
  "fst (analyzeExercise this l e) =
     (let this' = snd (analyzeExercise this l e)
      in if e = ''squat'' then analyzeSquat this' l
         else if e = ''pushup'' then analyzePushup this' l
         else if e = ''plank'' then analyzePlank this' l
         else if e = ''lunge'' then analyzeLunge this' l
         else Some getDefaultAssessment)"
  by (simp add: analyzeExercise_def Let_def)

lemma analyzeExercise_returns:
  assumes "historyWellFormed this" "wellFormed l"
  shows "\<exists>r. fst (analyzeExercise this l e) = Some r"
proof -
  have h: "historyWellFormed (snd (analyzeExercise this l e'))" for e'
    using assms by (rule historyWellFormed_after_call)
  show ?thesis
    using analyzeSquat_total[OF h[of "''squat''"] assms(2)]
      analyzePushup_total[OF h[of "''pushup''"] assms(2)]
      analyzePlank_total[OF h[of "''plank''"] assms(2)]
      analyzeLunge_total[OF h[of "''lunge''"] assms(2)]
    by (simp add: analyzeExercise_fst Let_def)
qed

text \<open>
  C2. After any sequence of calls with well-formed frames on a new instance, a call with
  a well-formed frame and any exercise string raises no exception and returns an
  assessment (a record with all six fields): the unknown exercise and the short history
  are answered by values.
\<close>

theorem analyzeExercise_total:
  assumes "list_all (\<lambda>c. wellFormed (fst c)) calls" "wellFormed landmarks"
  shows "\<exists>r. fst (analyzeExercise (afterCalls newExerciseAnalyzer calls) landmarks exercise) = Some r"
proof -
  have "historyWellFormed newExerciseAnalyzer"
    by (simp add: historyWellFormed_def newExerciseAnalyzer_def)
  then have "historyWellFormed (afterCalls newExerciseAnalyzer calls)"
    using assms(1) by (rule historyWellFormed_afterCalls)
  then show ?thesis using assms(2) by (rule analyzeExercise_returns)
qed

theorem analyzeExercise_total_witness:
  "list_all (\<lambda>c. wellFormed (fst c)) [(centreFrame, ''squat''), (centreFrame, ''plank'')] \<and>
   wellFormed centreFrame \<and>
   (\<exists>r. fst (analyzeExercise
              (afterCalls newExerciseAnalyzer [(centreFrame, ''squat''), (centreFrame, ''plank'')])
              centreFrame ''pushup'') = Some r)"
proof -
  have h1: "list_all (\<lambda>c. wellFormed (fst c)) [(centreFrame, ''squat''), (centreFrame, ''plank'')]"
    by (simp add: wellFormed_def centreFrame_def)
  have h2: "wellFormed centreFrame"
    by (simp add: wellFormed_def centreFrame_def)
  from analyzeExercise_total[OF h1 h2] show ?thesis using h1 h2 by blast
qed

subsection \<open>The unknown exercise\<close>

text \<open>
  C3. For an exercise that is none of squat, pushup, plank and lunge, whatever the frame
  and the history, the call returns the fixed default assessment: score 75, no critical
  error, no minor issue, the one strength "Exercise detected", phase "unknown", no joint
  angle, symmetry 0.8, stability 0.7, range 0.8 and timing 1 (the doubles that these
  literals denote).
\<close>

theorem unknown_exercise_fallback:
  "exercise \<notin> {''squat'', ''pushup'', ''plank'', ''lunge''} \<Longrightarrow>
   fst (analyzeExercise this landmarks exercise) =
     Some \<lparr>score = 75, criticalErrors = [], minorIssues = [],
           strengths = [''Exercise detected''], phase = ''unknown'',
           biomechanics = \<lparr>jointAngles = [], symmetry = round64 0.8, stability = round64 0.7,
                           range_rom = round64 0.8, timing = Fin 1\<rparr>\<rparr>"
  by (simp add: analyzeExercise_def getDefaultAssessment_def Let_def)

theorem unknown_exercise_fallback_witness:
  "map_option score (fst (analyzeExercise newExerciseAnalyzer centreFrame ''not_a_real_exercise'')) = Some 75
   \<and> map_option phase (fst (analyzeExercise newExerciseAnalyzer centreFrame ''not_a_real_exercise'')) = Some ''unknown''"
  using unknown_exercise_fallback[of "''not_a_real_exercise''" newExerciseAnalyzer centreFrame]
  by simp

subsection \<open>The scoring policy\<close>

lemma assessment_fields:
  "score (assessment f ph bio) =
     calculateFormScore (criticalErrors (assessment f ph bio)) (minorIssues (assessment f ph bio))
       (strengths (assessment f ph bio))"
  "phase (assessment f ph bio) = ph"
  "biomechanics (assessment f ph bio) = bio"
  by (cases f; simp)+

lemma analyzeSquat_score:
  "analyzeSquat this l = Some r \<Longrightarrow>
   score r = calculateFormScore (criticalErrors r) (minorIssues r) (strengths r)"
  unfolding analyzeSquat_def Let_def
  by (auto simp: assessment_fields(1) split: bind_splits split del: if_split)

lemma analyzePushup_score:
  "analyzePushup this l = Some r \<Longrightarrow>
   score r = calculateFormScore (criticalErrors r) (minorIssues r) (strengths r)"
  unfolding analyzePushup_def Let_def
  by (auto simp: assessment_fields(1) split: bind_splits split del: if_split)

lemma analyzePlank_score:
  "analyzePlank this l = Some r \<Longrightarrow>
   score r = calculateFormScore (criticalErrors r) (minorIssues r) (strengths r)"
  unfolding analyzePlank_def Let_def
  by (auto simp: assessment_fields(1) split: bind_splits split del: if_split)

lemma analyzeLunge_score:
  "analyzeLunge this l = Some r \<Longrightarrow>
   score r = calculateFormScore (criticalErrors r) (minorIssues r) (strengths r)"
  unfolding analyzeLunge_def Let_def
  by (auto simp: assessment_fields(1) split: bind_splits split del: if_split)

lemma calculateFormScore_bounds:
  "0 \<le> calculateFormScore c m s \<and> calculateFormScore c m s \<le> 100"
  by (simp add: calculateFormScore_def Let_def)

lemma calculateFormScore_formula:
  "calculateFormScore c m s =
     max 0 (min 100 (100 - 25 * int (length c) - 10 * int (length m) + 5 * int (length s)))"
  by (simp add: calculateFormScore_def Let_def)

text \<open>
  C1, as stated, fails on the default arm: for an unknown exercise the call returns the
  score 75 with no critical error, no minor issue and one strength, and the formula
  gives 100 for these three arrays.
\<close>

theorem score_policy_counterexample:
  "fst (analyzeExercise newExerciseAnalyzer centreFrame ''yoga'') = Some getDefaultAssessment \<and>
   score getDefaultAssessment = 75 \<and>
   max 0 (min 100 (100 - 25 * int (length (criticalErrors getDefaultAssessment))
                     - 10 * int (length (minorIssues getDefaultAssessment))
                     + 5 * int (length (strengths getDefaultAssessment)))) = 100"
  by (simp add: analyzeExercise_def Let_def getDefaultAssessment_def)

text \<open>
  C1, amended. The score of every assessment a call returns is between 0 and 100; for
  the four supported exercises it is 100 minus 25 for each critical error, minus 10 for
  each minor issue, plus 5 for each strength of that same assessment, clamped to 0..100:
  a function of the three lengths only; and for any other exercise it is 75.
\<close>

theorem score_policy:
  assumes "fst (analyzeExercise this landmarks exercise) = Some r"
  shows "0 \<le> score r \<and> score r \<le> 100 \<and>
     (exercise \<in> {''squat'', ''pushup'', ''plank'', ''lunge''} \<longrightarrow>
        score r = max 0 (min 100 (100 - 25 * int (length (criticalErrors r))
                                   - 10 * int (length (minorIssues r))
                                   + 5 * int (length (strengths r))))) \<and>
     (exercise \<notin> {''squat'', ''pushup'', ''plank'', ''lunge''} \<longrightarrow> score r = 75)"
proof (cases "exercise \<in> {''squat'', ''pushup'', ''plank'', ''lunge''}")
  case True
  then have "score r = calculateFormScore (criticalErrors r) (minorIssues r) (strengths r)"
    using assms analyzeSquat_score analyzePushup_score analyzePlank_score analyzeLunge_score
    by (auto simp: analyzeExercise_def Let_def split: if_splits)
  then show ?thesis
    using True calculateFormScore_bounds[of "criticalErrors r" "minorIssues r" "strengths r"]
    by (simp add: calculateFormScore_formula)
next
  case False
  then have "r = getDefaultAssessment"
    using assms by (simp add: analyzeExercise_def Let_def)
  then show ?thesis using False by (simp add: getDefaultAssessment_def)
qed

theorem score_policy_witness:
  "map_option score (fst (analyzeExercise newExerciseAnalyzer centreFrame ''plank'')) = Some 100 \<and>
   map_option score (fst (analyzeExercise newExerciseAnalyzer centreFrame ''yoga'')) = Some 75"
proof -
  have "\<exists>r. fst (analyzeExercise newExerciseAnalyzer centreFrame ''plank'') = Some r \<and>
          criticalErrors r = [] \<and> minorIssues r = [''Work on stability - reduce trembling''] \<and>
          strengths r = [''Excellent spinal alignment'', ''Good hip position'']"
    by (simp add: eval_defs analyzePlank_def calculatePlankBiomechanics_def
        analyzePlankAlignment_def calculateHipPosition_def)
  then obtain r where r: "fst (analyzeExercise newExerciseAnalyzer centreFrame ''plank'') = Some r"
    and f: "criticalErrors r = []" "minorIssues r = [''Work on stability - reduce trembling'']"
      "strengths r = [''Excellent spinal alignment'', ''Good hip position'']"
    by blast
  from score_policy[OF r] have "score r = 100" using f by simp
  moreover obtain d where d: "fst (analyzeExercise newExerciseAnalyzer centreFrame ''yoga'') = Some d"
    by (simp add: analyzeExercise_def Let_def)
  from score_policy[OF d] have "score d = 75" by simp
  ultimately show ?thesis using r d by simp
qed


text \<open>
  C7, as stated, fails: with five strengths and nothing else the score is 100, and it is
  still 100 with one critical error more, because the score is capped at 100 too.
\<close>

theorem severity_step_counterexample:
  "calculateFormScore [] [] (replicate 5 ''ok'') = 100 \<and>
   calculateFormScore [''fault''] [] (replicate 5 ''ok'') = 100"
  by (simp add: calculateFormScore_def)

text \<open>
  C7, amended. With the same minor issues and strengths, one critical error more never
  raises the score and lowers it by 25 at most; and when the cap at 100 is not active
  before the step (five times the strengths is at most 25 times the critical errors plus
  ten times the minor issues) it lowers the score by exactly 25, until the score is
  clamped at 0.
\<close>

theorem severity_step:
  "calculateFormScore (c @ [e]) m s \<le> calculateFormScore c m s \<and>
   calculateFormScore c m s - 25 \<le> calculateFormScore (c @ [e]) m s \<and>
   (5 * int (length s) \<le> 25 * int (length c) + 10 * int (length m) \<longrightarrow>
      calculateFormScore (c @ [e]) m s = max 0 (calculateFormScore c m s - 25))"
  by (auto simp add: calculateFormScore_def Let_def max_def min_def)

theorem severity_step_witness:
  "calculateFormScore [''fault''] [''issue''] [''ok''] = 70 \<and>
   calculateFormScore [''fault'', ''fault''] [''issue''] [''ok''] = 45"
  using severity_step[of "[''fault'']" "''fault''" "[''issue'']" "[''ok'']"]
  by (simp add: calculateFormScore_def)

subsection \<open>The findings of the analyzers\<close>

lemmas squat_eval_defs =
  analyzeSquat_def calculateSquatBiomechanics_def analyzeKneeAlignment_def
  calculateBackAngle_def calculateSquatDepth_def Math_atan2_def

lemmas plank_eval_defs =
  analyzePlank_def calculatePlankBiomechanics_def analyzePlankAlignment_def
  calculateHipPosition_def

lemma assessment_lists:
  "criticalErrors (assessment f ph bio) = fst f"
  "minorIssues (assessment f ph bio) = fst (snd f)"
  "strengths (assessment f ph bio) = snd (snd f)"
  by (cases f; simp)+

lemma push_parts:
  "fst (pushCritical msg f) = fst f @ [msg]"
  "fst (snd (pushCritical msg f)) = fst (snd f)"
  "snd (snd (pushCritical msg f)) = snd (snd f)"
  "fst (pushMinor msg f) = fst f"
  "fst (snd (pushMinor msg f)) = fst (snd f) @ [msg]"
  "snd (snd (pushMinor msg f)) = snd (snd f)"
  "fst (pushStrength msg f) = fst f"
  "fst (snd (pushStrength msg f)) = fst (snd f)"
  "snd (snd (pushStrength msg f)) = snd (snd f) @ [msg]"
  by (cases f; simp)+

lemma jgt_15_8: "jgt v (Fin 15) \<Longrightarrow> jgt v (Fin 8)"
  by (cases v) (simp_all add: jgt_def)

lemma analyzeSquat_findings:
  assumes "calculateSquatBiomechanics this l = Some bio" "symmetry bio = sy"
    and "detectSquatPhase this l = Some ph"
    and "analyzeKneeAlignment l = Some v" "calculateBackAngle l = Some b"
    and "calculateSquatDepth l = Some d"
  shows "\<exists>r. analyzeSquat this l = Some r \<and> phase r = ph \<and> biomechanics r = bio \<and>
     score r = calculateFormScore (criticalErrors r) (minorIssues r) (strengths r) \<and>
     criticalErrors r =
       (if jgt v (Fin 15) then [''Knees caving inward - risk of injury''] else []) @
       (if b > 45 then [''Excessive forward lean - maintain upright torso''] else []) \<and>
     minorIssues r =
       (if \<not> jgt v (Fin 15) \<and> jgt v (Fin 8)
        then [''Slight knee valgus - focus on external rotation''] else []) @
       (if \<not> b > 45 \<and> b > 30 then [''Slight forward lean - engage core more''] else []) @
       (if jlt d (Fin 70) then [''Increase squat depth for full range of motion''] else []) @
       (if jlt sy (round64 0.85) then [''Slight asymmetry detected - check balance''] else []) \<and>
     strengths r =
       (if \<not> jgt v (Fin 8) then [''Good knee alignment''] else []) @
       (if \<not> b > 30 then [''Good torso position''] else []) @
       (if \<not> jlt d (Fin 70) then [''Good squat depth''] else []) @
       (if \<not> jlt sy (round64 0.85) then [''Good bilateral symmetry''] else [])"
  using assms jgt_15_8[of v]
  by (auto simp: analyzeSquat_def Let_def assessment_fields assessment_lists push_parts)

lemma analyzePlank_findings:
  assumes "calculatePlankBiomechanics this l = Some bio"
    and "analyzePlankAlignment l = Some dv" "calculateHipPosition l = Some hh"
  shows "\<exists>r. analyzePlank this l = Some r \<and> phase r = ''hold'' \<and> biomechanics r = bio \<and>
     criticalErrors r =
       (if jgt dv (Fin 25) then [''Significant spinal misalignment''] else []) @
       (if jlt hh (round64 0.3) then [''Hips too low - lift to neutral'']
        else if jgt hh (round64 0.7) then [''Hips too high - lower to neutral''] else [])"
  using assms
  by (simp add: analyzePlank_def Let_def assessment_fields assessment_lists push_parts)

lemma squat_findings_wf:
  assumes "historyWellFormed this" "wellFormed l"
  shows "\<exists>r sy v b d. analyzeSquat this l = Some r \<and>
     calculateBilateralSymmetry l = Some sy \<and> analyzeKneeAlignment l = Some v \<and>
     calculateBackAngle l = Some b \<and> calculateSquatDepth l = Some d \<and>
     score r = calculateFormScore (criticalErrors r) (minorIssues r) (strengths r) \<and>
     criticalErrors r =
       (if jgt v (Fin 15) then [''Knees caving inward - risk of injury''] else []) @
       (if b > 45 then [''Excessive forward lean - maintain upright torso''] else []) \<and>
     minorIssues r =
       (if \<not> jgt v (Fin 15) \<and> jgt v (Fin 8)
        then [''Slight knee valgus - focus on external rotation''] else []) @
       (if \<not> b > 45 \<and> b > 30 then [''Slight forward lean - engage core more''] else []) @
       (if jlt d (Fin 70) then [''Increase squat depth for full range of motion''] else []) @
       (if jlt sy (round64 0.85) then [''Slight asymmetry detected - check balance''] else []) \<and>
     strengths r =
       (if \<not> jgt v (Fin 8) then [''Good knee alignment''] else []) @
       (if \<not> b > 30 then [''Good torso position''] else []) @
       (if \<not> jlt d (Fin 70) then [''Good squat depth''] else []) @
       (if \<not> jlt sy (round64 0.85) then [''Good bilateral symmetry''] else [])"
proof -
  obtain bio where bio: "calculateSquatBiomechanics this l = Some bio"
    and sy: "Some (symmetry bio) = calculateBilateralSymmetry l"
    using squatBiomechanics_wf[OF assms] by blast
  obtain ph where ph: "detectSquatPhase this l = Some ph"
    using trackedPhase_wf[OF assms, of 23] by (simp add: detectSquatPhase_def)
  from analyzeSquat_findings[OF bio refl ph analyzeKneeAlignment_wf[OF assms(2)]
      calculateBackAngle_wf[OF assms(2)] calculateSquatDepth_wf[OF assms(2)]] sy[symmetric]
    analyzeKneeAlignment_wf[OF assms(2)] calculateBackAngle_wf[OF assms(2)]
    calculateSquatDepth_wf[OF assms(2)]
  show ?thesis by blast
qed

lemma plank_findings_wf:
  assumes "historyWellFormed this" "wellFormed l"
  shows "\<exists>r. analyzePlank this l = Some r \<and> phase r = ''hold'' \<and>
     criticalErrors r =
       (if jgt (jmul (jabs (jsub (Fin (y (l ! 23)))
                        (jadd (Fin (y (l ! 11)))
                           (jmul (jsub (Fin (y (l ! 27))) (Fin (y (l ! 11)))) (round64 0.6)))))
                  (Fin 100))
               (Fin 25)
        then [''Significant spinal misalignment''] else []) @
       (if jlt (Fin (y (l ! 23))) (round64 0.3) then [''Hips too low - lift to neutral'']
        else if jgt (Fin (y (l ! 23))) (round64 0.7) then [''Hips too high - lower to neutral'']
        else [])"
proof -
  obtain bio where bio: "calculatePlankBiomechanics this l = Some bio"
    using plankBiomechanics_wf[OF assms] by blast
  from analyzePlank_findings[OF bio analyzePlankAlignment_wf[OF assms(2)]
      calculateHipPosition_wf[OF assms(2)]]
  show ?thesis by blast
qed

lemma analyzePushup_phase:
  assumes "historyWellFormed this" "wellFormed l"
  shows "\<exists>r. analyzePushup this l = Some r \<and> Some (phase r) = trackedPhase 11 this l"
proof -
  obtain bio where "calculatePushupBiomechanics this l = Some bio"
    using pushupBiomechanics_wf[OF assms] by blast
  moreover obtain rom where "calculatePushupROM this l = Some rom"
    using pushupROM_total[OF assms(1)] by blast
  moreover obtain hs where "analyzePushupAlignment l = Some hs"
    using analyzePushupAlignment_wf[OF assms(2)] by blast
  ultimately show ?thesis
    using assms
    by (simp add: analyzePushup_def detectPushupPhase_def trackedPhase_wf
        calculateElbowAngle_def angleAt_wf assessment_fields Let_def split del: if_split)
qed

lemma analyzeLunge_phase:
  assumes "historyWellFormed this" "wellFormed l"
  shows "\<exists>r. analyzeLunge this l = Some r \<and> Some (phase r) = trackedPhase 23 this l"
proof -
  obtain bio where "calculateLungeBiomechanics this l = Some bio"
    using lungeBiomechanics_wf[OF assms] by blast
  moreover obtain oa where "analyzeFrontKneeAlignment l = Some oa"
    using analyzeFrontKneeAlignment_wf[OF assms(2)] by blast
  ultimately show ?thesis
    using assms
    by (simp add: analyzeLunge_def detectLungePhase_def trackedPhase_wf
        calculateTorsoLean_wf assessment_fields Let_def split del: if_split)
qed

lemma analyzeSquat_phase:
  assumes "historyWellFormed this" "wellFormed l"
  shows "\<exists>r. analyzeSquat this l = Some r \<and> Some (phase r) = trackedPhase 23 this l"
proof -
  obtain bio where "calculateSquatBiomechanics this l = Some bio"
    using squatBiomechanics_wf[OF assms] by blast
  then show ?thesis
    using assms
    by (simp add: analyzeSquat_def detectSquatPhase_def trackedPhase_wf analyzeKneeAlignment_wf
        calculateBackAngle_wf calculateSquatDepth_wf assessment_fields Let_def split del: if_split)
qed

subsection \<open>Phase detection\<close>

text \<open>
  Dropping the oldest frame of a history of more than 30 changes none of its last three
  frames.
\<close>

lemma phase_window:
  fixes h :: "'a list"
  defines "t \<equiv> (if length h > 30 then tl h else h)"
  shows "(length t < 3) = (length h < 3)"
    and "\<not> length h < 3 \<Longrightarrow> last t = last h"
    and "\<not> length h < 3 \<Longrightarrow> t ! (length t - 3) = h ! (length h - 3)"
proof -
  show "(length t < 3) = (length h < 3)"
    by (auto simp: t_def)
  show "last t = last h" if "\<not> length h < 3"
  proof (cases "length h > 30")
    case True
    then have "tl h \<noteq> []" by (cases h) auto
    then show ?thesis using True by (simp add: t_def last_tl)
  next
    case False
    then show ?thesis by (simp add: t_def)
  qed
  show "t ! (length t - 3) = h ! (length h - 3)" if "\<not> length h < 3"
  proof (cases "length h > 30")
    case True
    then have "length h - 1 - 3 < length (tl h)" by simp
    then have "tl h ! (length h - 1 - 3) = h ! Suc (length h - 1 - 3)"
      by (rule nth_tl)
    moreover have "Suc (length h - 1 - 3) = length h - 3" using True by simp
    ultimately show ?thesis using True by (simp add: t_def)
  next
    case False
    then show ?thesis by (simp add: t_def)
  qed
qed

text \<open>
  C6. For squat, pushup and lunge, on well-formed frames: with \<open>h\<close> the history with the
  frame of the call appended, the phase is "starting" when \<open>h\<close> has fewer than 3 frames;
  otherwise, with the trend the \<open>y\<close> of the tracked landmark (11 for pushup, 23 for
  squat and lunge) in the newest frame of \<open>h\<close> minus its \<open>y\<close> in the third newest (a
  subtraction of doubles), the phase is "descending" when the trend is above the double
  0.01, "ascending" when it is below its opposite, and "bottom" otherwise. In particular
  the first call of an instance returns "starting".
\<close>

theorem phase_detector:
  assumes "historyWellFormed this" "wellFormed landmarks"
    and "exercise \<in> {''squat'', ''pushup'', ''lunge''}"
  shows "\<exists>r. fst (analyzeExercise this landmarks exercise) = Some r \<and>
     phase r =
       (let h = frameHistory this @ [landmarks];
            k = (if exercise = ''pushup'' then 11 else 23)
        in if length h < 3 then ''starting''
           else let trend = jsub (Fin (y (last h ! k))) (Fin (y (h ! (length h - 3) ! k)))
                in if jgt trend (round64 0.01) then ''descending''
                   else if jlt trend (jneg (round64 0.01)) then ''ascending''
                   else ''bottom'') \<and>
     (frameHistory this = [] \<longrightarrow> phase r = ''starting'')"
proof -
  let ?t = "snd (analyzeExercise this landmarks exercise)"
  let ?k = "if exercise = ''pushup'' then 11 else 23 :: nat"
  let ?h = "frameHistory this @ [landmarks]"
  have h: "historyWellFormed ?t"
    using assms(1,2) by (rule historyWellFormed_after_call)
  have "\<exists>r. fst (analyzeExercise this landmarks exercise) = Some r \<and>
          Some (phase r) = trackedPhase ?k ?t landmarks"
  proof -
    consider "exercise = ''squat''" | "exercise = ''pushup''" | "exercise = ''lunge''"
      using assms(3) by auto
    then show ?thesis
    proof cases
      case 1
      then show ?thesis
        using analyzeSquat_phase[OF h assms(2)] by (simp add: analyzeExercise_fst)
    next
      case 2
      then show ?thesis
        using analyzePushup_phase[OF h assms(2)] by (simp add: analyzeExercise_fst)
    next
      case 3
      then show ?thesis
        using analyzeLunge_phase[OF h assms(2)] by (simp add: analyzeExercise_fst)
    qed
  qed
  then obtain r where r: "fst (analyzeExercise this landmarks exercise) = Some r"
    and p: "Some (phase r) = trackedPhase ?k ?t landmarks"
    by blast
  have k: "?k < 33" by simp
  have t: "frameHistory ?t = (if length ?h > 30 then tl ?h else ?h)"
    by (simp add: history_after_call)
  have w1: "(length (frameHistory ?t) < 3) = (length ?h < 3)"
    unfolding t by (rule phase_window(1))
  have w2: "last (frameHistory ?t) = last ?h" if "\<not> length ?h < 3"
    unfolding t using that by (rule phase_window(2))
  have w3: "frameHistory ?t ! (length (frameHistory ?t) - 3) = ?h ! (length ?h - 3)"
    if "\<not> length ?h < 3"
    unfolding t using that by (rule phase_window(3))
  have "phase r =
       (if length ?h < 3 then ''starting''
        else let trend = jsub (Fin (y (last ?h ! ?k))) (Fin (y (?h ! (length ?h - 3) ! ?k)))
             in if jgt trend (round64 0.01) then ''descending''
                else if jlt trend (jneg (round64 0.01)) then ''ascending''
                else ''bottom'')"
  proof (cases "length ?h < 3")
    case True
    then show ?thesis
      using p w1 unfolding trackedPhase_wf[OF h assms(2) k] by simp
  next
    case False
    then show ?thesis
      using p w1 w2[OF False] w3[OF False]
      unfolding trackedPhase_wf[OF h assms(2) k] by (simp add: Let_def)
  qed
  then show ?thesis
    using r by (auto simp: Let_def)
qed

theorem phase_detector_witness:
  "historyWellFormed (afterCalls newExerciseAnalyzer [(centreFrame, ''squat''), (centreFrame, ''squat'')]) \<and>
   wellFormed hipLowerFrame \<and>
   jsub (Fin (y (hipLowerFrame ! 23))) (Fin (y (centreFrame ! 23))) = Fin 0.125 \<and>
   map_option phase
     (fst (analyzeExercise
            (afterCalls newExerciseAnalyzer [(centreFrame, ''squat''), (centreFrame, ''squat'')])
            hipLowerFrame ''squat'')) = Some ''descending''"
proof -
  let ?s = "afterCalls newExerciseAnalyzer [(centreFrame, ''squat''), (centreFrame, ''squat'')]"
  have fh: "frameHistory ?s = [centreFrame, centreFrame]"
    by (simp add: history_after_call newExerciseAnalyzer_def)
  have h1: "historyWellFormed ?s"
    unfolding historyWellFormed_def fh by (simp add: wellFormed_def centreFrame_def)
  have h2: "wellFormed hipLowerFrame"
    by (simp add: wellFormed_def hipLowerFrame_def landmarkAt_def centreFrame_def)
  have h3: "''squat'' \<in> {''squat'', ''pushup'', ''lunge''}" by simp
  have d: "jsub (Fin (y (hipLowerFrame ! 23))) (Fin (y (centreFrame ! 23))) = Fin 0.125"
    by (simp add: hipLowerFrame_def landmarkAt_def centreFrame_def centre_def round64_32)
  from phase_detector[OF h1 h2 h3] obtain r
    where r: "fst (analyzeExercise ?s hipLowerFrame ''squat'') = Some r"
      and p: "phase r =
       (let h = frameHistory ?s @ [hipLowerFrame];
            k = (if ''squat'' = ''pushup'' then 11 else 23)
        in if length h < 3 then ''starting''
           else let trend = jsub (Fin (y (last h ! k))) (Fin (y (h ! (length h - 3) ! k)))
                in if jgt trend (round64 0.01) then ''descending''
                   else if jlt trend (jneg (round64 0.01)) then ''ascending''
                   else ''bottom'')"
    by blast
  have "phase r = ''descending''"
    unfolding p fh using d by (simp add: jgt_def literals)
  with r h1 h2 d show ?thesis by simp
qed

subsection \<open>The plank\<close>

text \<open>
  C9, as stated, fails between 20 and 25: a hip 21.875 away from the expected point of
  the shoulder-ankle line, at a height between 0.3 and 0.7, gives no critical error (the
  deviation is a minor issue up to 25).
\<close>

theorem plank_hip_sag_counterexample:
  "jmul (jabs (jsub (Fin (y (sagFrame 0.34375 ! 23)))
                 (jadd (Fin (y (sagFrame 0.34375 ! 11)))
                    (jmul (jsub (Fin (y (sagFrame 0.34375 ! 27))) (Fin (y (sagFrame 0.34375 ! 11))))
                       (round64 0.6)))))
      (Fin 100) = Fin 21.875 \<and>
   map_option criticalErrors (fst (analyzeExercise newExerciseAnalyzer (sagFrame 0.34375) ''plank'')) =
     Some []"
  by (simp add: eval_defs plank_eval_defs sagFrame_def landmarkAt_def)

text \<open>
  C9, amended. Every plank call on well-formed frames returns the phase "hold", whatever
  the history; and when the deviation that the code computes in doubles,
  \<open>|hip.y - (shoulder.y + (ankle.y - shoulder.y) * 0.6)| * 100\<close> (landmarks 23, 11 and
  27), is above 25, the critical errors contain "Significant spinal misalignment".
\<close>

theorem plank_hip_sag:
  assumes "historyWellFormed this" "wellFormed landmarks"
  shows "\<exists>r. fst (analyzeExercise this landmarks ''plank'') = Some r \<and> phase r = ''hold'' \<and>
     (jgt (jmul (jabs (jsub (Fin (y (landmarks ! 23)))
                        (jadd (Fin (y (landmarks ! 11)))
                           (jmul (jsub (Fin (y (landmarks ! 27))) (Fin (y (landmarks ! 11))))
                              (round64 0.6)))))
             (Fin 100))
          (Fin 25) \<longrightarrow>
      ''Significant spinal misalignment'' \<in> set (criticalErrors r))"
proof -
  let ?t = "snd (analyzeExercise this landmarks ''plank'')"
  have h: "historyWellFormed ?t"
    using assms by (rule historyWellFormed_after_call)
  show ?thesis
    using plank_findings_wf[OF h assms(2)]
    by (auto simp: analyzeExercise_fst)
qed

theorem plank_hip_sag_witness:
  "historyWellFormed newExerciseAnalyzer \<and> wellFormed (sagFrame 0.5) \<and>
   jmul (jabs (jsub (Fin (y (sagFrame 0.5 ! 23)))
                 (jadd (Fin (y (sagFrame 0.5 ! 11)))
                    (jmul (jsub (Fin (y (sagFrame 0.5 ! 27))) (Fin (y (sagFrame 0.5 ! 11))))
                       (round64 0.6)))))
      (Fin 100) = Fin 37.5 \<and>
   (\<exists>r. fst (analyzeExercise newExerciseAnalyzer (sagFrame 0.5) ''plank'') = Some r \<and>
        phase r = ''hold'' \<and> ''Significant spinal misalignment'' \<in> set (criticalErrors r))"
proof -
  have h1: "historyWellFormed newExerciseAnalyzer"
    by (simp add: historyWellFormed_def newExerciseAnalyzer_def)
  have h2: "wellFormed (sagFrame 0.5)"
    by (simp add: wellFormed_def sagFrame_def landmarkAt_def centreFrame_def)
  have d: "jmul (jabs (jsub (Fin (y (sagFrame 0.5 ! 23)))
                 (jadd (Fin (y (sagFrame 0.5 ! 11)))
                    (jmul (jsub (Fin (y (sagFrame 0.5 ! 27))) (Fin (y (sagFrame 0.5 ! 11))))
                       (round64 0.6)))))
      (Fin 100) = Fin 37.5"
    by (simp add: sagFrame_def landmarkAt_def centreFrame_def centre_def round64_32 literals)
  from plank_hip_sag[OF h1 h2] obtain r
    where "fst (analyzeExercise newExerciseAnalyzer (sagFrame 0.5) ''plank'') = Some r"
      "phase r = ''hold''"
      "jgt (jmul (jabs (jsub (Fin (y (sagFrame 0.5 ! 23)))
                        (jadd (Fin (y (sagFrame 0.5 ! 11)))
                           (jmul (jsub (Fin (y (sagFrame 0.5 ! 27))) (Fin (y (sagFrame 0.5 ! 11))))
                              (round64 0.6)))))
             (Fin 100))
          (Fin 25) \<longrightarrow>
       ''Significant spinal misalignment'' \<in> set (criticalErrors r)"
    by blast
  then show ?thesis
    using h1 h2 d by (auto simp: jgt_def)
qed

subsection \<open>The squat\<close>



lemma withKneeAnkleX_wf: "wellFormed l \<Longrightarrow> wellFormed (withKneeAnkleX l a b c d)"
  by (simp add: wellFormed_def withKneeAnkleX_def)

lemma withKneeAnkleX_measures:
  assumes "wellFormed l"
  shows "analyzeKneeAlignment (withKneeAnkleX l k1 k2 a1 a2) =
           Some (Math_max (jmul (jabs (jsub (Fin k1) (Fin a1))) (Fin 100))
                          (jmul (jabs (jsub (Fin k2) (Fin a2))) (Fin 100)))"
    and "calculateBackAngle (withKneeAnkleX l k1 k2 a1 a2) = calculateBackAngle l"
    and "calculateSquatDepth (withKneeAnkleX l k1 k2 a1 a2) = calculateSquatDepth l"
    and "calculateBilateralSymmetry (withKneeAnkleX l k1 k2 a1 a2) = calculateBilateralSymmetry l"
proof -
  have w: "wellFormed (withKneeAnkleX l k1 k2 a1 a2)"
    using assms by (rule withKneeAnkleX_wf)
  have len: "length l = 33" using assms by (simp add: wellFormed_def)
  show "analyzeKneeAlignment (withKneeAnkleX l k1 k2 a1 a2) =
           Some (Math_max (jmul (jabs (jsub (Fin k1) (Fin a1))) (Fin 100))
                          (jmul (jabs (jsub (Fin k2) (Fin a2))) (Fin 100)))"
    unfolding analyzeKneeAlignment_wf[OF w] by (simp add: withKneeAnkleX_def len)
  show "calculateBackAngle (withKneeAnkleX l k1 k2 a1 a2) = calculateBackAngle l"
    unfolding calculateBackAngle_wf[OF w] calculateBackAngle_wf[OF assms]
    by (simp add: withKneeAnkleX_def len)
  show "calculateSquatDepth (withKneeAnkleX l k1 k2 a1 a2) = calculateSquatDepth l"
    unfolding calculateSquatDepth_wf[OF w] calculateSquatDepth_wf[OF assms]
    by (simp add: withKneeAnkleX_def len)
  show "calculateBilateralSymmetry (withKneeAnkleX l k1 k2 a1 a2) = calculateBilateralSymmetry l"
    using w assms
    by (simp add: calculateBilateralSymmetry_def) (simp add: withKneeAnkleX_def len)
qed

lemma squat_pair_scores:
  fixes b :: real and d sy :: jsnum
  defines "c \<equiv> (if b > 45 then [''Excessive forward lean - maintain upright torso''] else [])"
    and "m \<equiv> (if \<not> b > 45 \<and> b > 30 then [''Slight forward lean - engage core more''] else []) @
       (if jlt d (Fin 70) then [''Increase squat depth for full range of motion''] else []) @
       (if jlt sy (round64 0.85) then [''Slight asymmetry detected - check balance''] else [])"
    and "s \<equiv> (if \<not> b > 30 then [''Good torso position''] else []) @
       (if \<not> jlt d (Fin 70) then [''Good squat depth''] else []) @
       (if \<not> jlt sy (round64 0.85) then [''Good bilateral symmetry''] else [])"
  shows "calculateFormScore (k # c) m s + 10 \<le> calculateFormScore c m (g # s)"
    and "length (g # s) < 4 \<Longrightarrow> calculateFormScore (k # c) m s + 25 \<le> calculateFormScore c m (g # s)"
    and "length (g # s) = 4 \<Longrightarrow>
           calculateFormScore (k # c) m s = 90 \<and> calculateFormScore c m (g # s) = 100"
proof -
  have n: "length c + length m + length s = 3" "length c \<le> 1"
    by (simp_all add: c_def m_def s_def)
  show "calculateFormScore (k # c) m s + 10 \<le> calculateFormScore c m (g # s)"
    using n by (simp add: calculateFormScore_formula)
  show "calculateFormScore (k # c) m s + 25 \<le> calculateFormScore c m (g # s)" if "length (g # s) < 4"
    using n that by (simp add: calculateFormScore_formula)
  show "calculateFormScore (k # c) m s = 90 \<and> calculateFormScore c m (g # s) = 100"
    if "length (g # s) = 4"
    using n that by (simp add: calculateFormScore_formula)
qed

text \<open>
  C8, as stated, fails when the good-form frame earns all four strengths: its score is
  capped at 100, and the frame that differs by the knee only scores 90, which is 10
  lower and not 25.
\<close>

theorem squat_knee_valgus_counterexample:
  "Math_max (jmul (jabs (jsub (Fin (x (valgusFrame ! 25))) (Fin (x (valgusFrame ! 27))))) (Fin 100))
            (jmul (jabs (jsub (Fin (x (valgusFrame ! 26))) (Fin (x (valgusFrame ! 28))))) (Fin 100)) =
     Fin 25 \<and>
   map_option criticalErrors (fst (analyzeExercise newExerciseAnalyzer valgusFrame ''squat'')) =
     Some [''Knees caving inward - risk of injury''] \<and>
   map_option score (fst (analyzeExercise newExerciseAnalyzer valgusFrame ''squat'')) = Some 90 \<and>
   map_option strengths
     (fst (analyzeExercise newExerciseAnalyzer (withKneeAnkleX valgusFrame 0.5 0.5 0.5 0.5) ''squat'')) =
     Some [''Good knee alignment'', ''Good torso position'', ''Good squat depth'',
           ''Good bilateral symmetry''] \<and>
   map_option score
     (fst (analyzeExercise newExerciseAnalyzer (withKneeAnkleX valgusFrame 0.5 0.5 0.5 0.5) ''squat'')) =
     Some 100"
  by (simp add: eval_defs squat_eval_defs valgusFrame_def withKneeAnkleX_def landmarkAt_def)

text \<open>
  C8, amended. For a squat call on well-formed frames, when the measure that the code
  computes in doubles, the larger of \<open>|knee.x - ankle.x| * 100\<close> for the left leg
  (landmarks 25 and 27) and for the right leg (26 and 28), is above 15, the critical
  errors contain "Knees caving inward - risk of injury"; and against the frame that
  differs by the horizontal positions of knees and ankles only and has "Good knee
  alignment" (a measure not above 8), the score is at least 10 lower, and at least 25
  lower unless that good-form frame has all four strengths, in which case it scores 100
  and the valgus frame 90.
\<close>

theorem squat_knee_valgus:
  assumes "historyWellFormed this" "wellFormed landmarks"
    and "jgt (Math_max
               (jmul (jabs (jsub (Fin (x (landmarks ! 25))) (Fin (x (landmarks ! 27))))) (Fin 100))
               (jmul (jabs (jsub (Fin (x (landmarks ! 26))) (Fin (x (landmarks ! 28))))) (Fin 100)))
            (Fin 15)"
    and "\<not> jgt (Math_max (jmul (jabs (jsub (Fin k1) (Fin a1))) (Fin 100))
                         (jmul (jabs (jsub (Fin k2) (Fin a2))) (Fin 100)))
              (Fin 8)"
  shows "\<exists>r g. fst (analyzeExercise this landmarks ''squat'') = Some r \<and>
     fst (analyzeExercise this (withKneeAnkleX landmarks k1 k2 a1 a2) ''squat'') = Some g \<and>
     ''Knees caving inward - risk of injury'' \<in> set (criticalErrors r) \<and>
     ''Good knee alignment'' \<in> set (strengths g) \<and>
     score r + 10 \<le> score g \<and>
     (length (strengths g) < 4 \<longrightarrow> score r + 25 \<le> score g) \<and>
     (length (strengths g) = 4 \<longrightarrow> score r = 90 \<and> score g = 100)"
proof -
  let ?B = "withKneeAnkleX landmarks k1 k2 a1 a2"
  let ?tA = "snd (analyzeExercise this landmarks ''squat'')"
  let ?tB = "snd (analyzeExercise this ?B ''squat'')"
  have wB: "wellFormed ?B" using assms(2) by (rule withKneeAnkleX_wf)
  have hA: "historyWellFormed ?tA"
    using assms(1,2) by (rule historyWellFormed_after_call)
  have hB: "historyWellFormed ?tB"
    using assms(1) wB by (rule historyWellFormed_after_call)
  note vA = analyzeKneeAlignment_wf[OF assms(2)]
  note mB = withKneeAnkleX_measures[OF assms(2), of k1 k2 a1 a2]
  have gt8: "jgt (Math_max
               (jmul (jabs (jsub (Fin (x (landmarks ! 25))) (Fin (x (landmarks ! 27))))) (Fin 100))
               (jmul (jabs (jsub (Fin (x (landmarks ! 26))) (Fin (x (landmarks ! 28))))) (Fin 100)))
            (Fin 8)"
    using assms(3) by (rule jgt_15_8)
  have le15: "\<not> jgt (Math_max (jmul (jabs (jsub (Fin k1) (Fin a1))) (Fin 100))
                         (jmul (jabs (jsub (Fin k2) (Fin a2))) (Fin 100)))
              (Fin 15)"
    using assms(4) jgt_15_8 by blast
  obtain sy b d where m: "calculateBilateralSymmetry landmarks = Some sy"
      "calculateBackAngle landmarks = Some b" "calculateSquatDepth landmarks = Some d"
    using symmetry_wf[OF assms(2)] calculateBackAngle_wf[OF assms(2)]
      calculateSquatDepth_wf[OF assms(2)]
    by blast
  define c where "c = (if b > 45 then [''Excessive forward lean - maintain upright torso''] else [])"
  define mi where "mi = (if \<not> b > 45 \<and> b > 30 then [''Slight forward lean - engage core more''] else []) @
       (if jlt d (Fin 70) then [''Increase squat depth for full range of motion''] else []) @
       (if jlt sy (round64 0.85) then [''Slight asymmetry detected - check balance''] else [])"
  define s where "s = (if \<not> b > 30 then [''Good torso position''] else []) @
       (if \<not> jlt d (Fin 70) then [''Good squat depth''] else []) @
       (if \<not> jlt sy (round64 0.85) then [''Good bilateral symmetry''] else [])"
  obtain r where r: "analyzeSquat ?tA landmarks = Some r"
      "score r = calculateFormScore (criticalErrors r) (minorIssues r) (strengths r)"
      "criticalErrors r = ''Knees caving inward - risk of injury'' # c"
      "minorIssues r = mi" "strengths r = s"
    using squat_findings_wf[OF hA assms(2)] assms(3) gt8
    unfolding vA m c_def mi_def s_def by auto
  obtain g where g: "analyzeSquat ?tB ?B = Some g"
      "score g = calculateFormScore (criticalErrors g) (minorIssues g) (strengths g)"
      "criticalErrors g = c"
      "minorIssues g = mi" "strengths g = ''Good knee alignment'' # s"
    using squat_findings_wf[OF hB wB] assms(4) le15
    unfolding mB m c_def mi_def s_def by auto
  have "score r + 10 \<le> score g"
    unfolding r g c_def mi_def s_def by (rule squat_pair_scores(1))
  moreover have "score r + 25 \<le> score g" if "length (strengths g) < 4"
    using that unfolding r g c_def mi_def s_def by (rule squat_pair_scores(2))
  moreover have "score r = 90 \<and> score g = 100" if "length (strengths g) = 4"
    using that unfolding r g c_def mi_def s_def by (rule squat_pair_scores(3))
  ultimately show ?thesis
    using r(1,3) g(1,5) by (simp add: analyzeExercise_fst)
qed

theorem squat_knee_valgus_witness:
  "historyWellFormed newExerciseAnalyzer \<and> wellFormed kneeOutFrame \<and>
   Math_max (jmul (jabs (jsub (Fin (x (kneeOutFrame ! 25))) (Fin (x (kneeOutFrame ! 27))))) (Fin 100))
            (jmul (jabs (jsub (Fin (x (kneeOutFrame ! 26))) (Fin (x (kneeOutFrame ! 28))))) (Fin 100)) =
     Fin 25 \<and>
   Math_max (jmul (jabs (jsub (Fin 0.5) (Fin 0.5))) (Fin 100))
            (jmul (jabs (jsub (Fin 0.5) (Fin 0.5))) (Fin 100)) = Fin 0 \<and>
   (\<exists>r g. fst (analyzeExercise newExerciseAnalyzer kneeOutFrame ''squat'') = Some r \<and>
      fst (analyzeExercise newExerciseAnalyzer (withKneeAnkleX kneeOutFrame 0.5 0.5 0.5 0.5) ''squat'') = Some g \<and>
      ''Knees caving inward - risk of injury'' \<in> set (criticalErrors r) \<and>
      ''Good knee alignment'' \<in> set (strengths g) \<and>
      length (strengths g) = 3 \<and> score r + 25 \<le> score g)"
proof -
  have h1: "historyWellFormed newExerciseAnalyzer"
    by (simp add: historyWellFormed_def newExerciseAnalyzer_def)
  have h2: "wellFormed kneeOutFrame"
    by (simp add: wellFormed_def kneeOutFrame_def landmarkAt_def centreFrame_def)
  have v3: "Math_max (jmul (jabs (jsub (Fin (x (kneeOutFrame ! 25))) (Fin (x (kneeOutFrame ! 27))))) (Fin 100))
            (jmul (jabs (jsub (Fin (x (kneeOutFrame ! 26))) (Fin (x (kneeOutFrame ! 28))))) (Fin 100)) =
     Fin 25"
    by (simp add: kneeOutFrame_def landmarkAt_def centreFrame_def centre_def round64_32 Math_max_def)
  have v4: "Math_max (jmul (jabs (jsub (Fin 0.5) (Fin 0.5))) (Fin 100))
            (jmul (jabs (jsub (Fin 0.5) (Fin 0.5))) (Fin 100)) = Fin 0"
    by (simp add: Math_max_def)
  have h3: "jgt (Math_max (jmul (jabs (jsub (Fin (x (kneeOutFrame ! 25))) (Fin (x (kneeOutFrame ! 27))))) (Fin 100))
            (jmul (jabs (jsub (Fin (x (kneeOutFrame ! 26))) (Fin (x (kneeOutFrame ! 28))))) (Fin 100)))
          (Fin 15)"
    unfolding v3 by (simp add: jgt_def)
  have h4: "\<not> jgt (Math_max (jmul (jabs (jsub (Fin 0.5) (Fin 0.5))) (Fin 100))
            (jmul (jabs (jsub (Fin 0.5) (Fin 0.5))) (Fin 100))) (Fin 8)"
    unfolding v4 by (simp add: jgt_def)
  have n: "map_option (\<lambda>g. length (strengths g))
      (fst (analyzeExercise newExerciseAnalyzer (withKneeAnkleX kneeOutFrame 0.5 0.5 0.5 0.5) ''squat'')) = Some 3"
    by (simp add: eval_defs squat_eval_defs kneeOutFrame_def withKneeAnkleX_def landmarkAt_def)
  from squat_knee_valgus[OF h1 h2 h3 h4]
  obtain r g where
    "fst (analyzeExercise newExerciseAnalyzer kneeOutFrame ''squat'') = Some r"
    "fst (analyzeExercise newExerciseAnalyzer (withKneeAnkleX kneeOutFrame 0.5 0.5 0.5 0.5) ''squat'') = Some g"
    "''Knees caving inward - risk of injury'' \<in> set (criticalErrors r)"
    "''Good knee alignment'' \<in> set (strengths g)"
    "length (strengths g) < 4 \<longrightarrow> score r + 25 \<le> score g"
    by auto
  with n h1 h2 v3 v4 show ?thesis by auto
qed

subsection \<open>The angle at a vertex\<close>

text \<open>
  C5. For three coincident points both rays have length zero and the quotient is
  \<open>0 / 0\<close>; the clamp and the arccosine keep the \<open>NaN\<close>, so the angle is \<open>NaN\<close>, and so
  are the joint angles of the assessment of a frame whose landmarks coincide.
\<close>

theorem calculateAngle_coincident_NaN:
  "calculateAngle centre centre centre = NaN \<and>
   map_option (\<lambda>r. jointAngles (biomechanics r))
     (fst (analyzeExercise newExerciseAnalyzer centreFrame ''squat'')) =
     Some [(''hip'', NaN), (''knee'', NaN), (''ankle'', NaN)]"
  by (simp add: eval_defs squat_eval_defs calculateAngle_def)

end
